theory Spec2Isabelle
  imports Main "HOL-Library.Multiset"
begin

section \<open>Data model (app/models.py, app/schemas.py)\<close>

text \<open>
  Identifiers are the 36-character strings produced by \<^verbatim>\<open>str(uuid4())\<close>; a
  \<^verbatim>\<open>datetime\<close> is its number of microseconds since the epoch, in UTC. Both come
  from the environment (the random generator and the wall clock), so every handler below
  takes the identifiers and clock readings it consumes as arguments.

  The three mapped classes become records. The column names of the source are kept, with
  a one-letter prefix per table, because \<open>id\<close>, \<open>created_at\<close> and \<open>agent_id\<close>
  occur in more than one table.
\<close>

type_synonym uuid = string
type_synonym datetime = nat

record agent =
  a_id :: uuid
  a_name :: string
  a_prompt :: string
  a_created_at :: datetime
  a_updated_at :: datetime

record chat_session =
  s_id :: uuid
  s_agent_id :: uuid
  s_title :: "string option"
  s_created_at :: datetime

record message =
  m_id :: uuid
  m_session_id :: uuid
  m_role :: string
  m_content :: string
  m_audio_url :: "string option"
  m_created_at :: datetime

text \<open>
  \<^verbatim>\<open>AgentUpdate\<close>: each field is unset (\<open>None\<close>), explicitly \<^verbatim>\<open>null\<close>
  (\<open>Some None\<close>) or a string; \<^verbatim>\<open>model_dump(exclude_unset=True)\<close> keeps the last
  two. \<^verbatim>\<open>SessionCreate\<close> has one optional title.
\<close>

record agent_update =
  u_name :: "string option option"
  u_prompt :: "string option option"

text \<open>One \<^verbatim>\<open>{"role": ..., "content": ...}\<close> dictionary of the chat API.\<close>

record chat_entry =
  role :: string
  content :: string

section \<open>Errors\<close>

text \<open>
  Every \<^verbatim>\<open>raise\<close> is a value: the 404 of the handlers with its detail string, the
  exception of \<^verbatim>\<open>scalar_one_or_none\<close> on several rows, the constraint violation
  of a commit (a primary key that exists, a \<^verbatim>\<open>NOT NULL\<close> column set to
  \<^verbatim>\<open>None\<close>), the two exceptions of creating the temporary file of an upload, and
  whatever a call of the AI gateway raises, which no handler catches.
\<close>

datatype error =
    HTTP_404 string
  | MultipleResultsFound
  | IntegrityError
  | UpstreamError string
  | ValueError
  | OSError

section \<open>The world: store, audio directory, gateway trace\<close>

text \<open>
  The tables are lists in insertion order. \<open>audio_files\<close> is the directory
  \<^verbatim>\<open>audio_files/\<close>. \<open>gateway_log\<close> records every call made to the external AI
  gateway, with the flag telling whether the call returned (\<open>True\<close>) or raised.
\<close>

datatype gw_call =
    Transcribe string "nat list"
  | CompleteChat "chat_entry list"
  | Synthesize string

record world =
  agents :: "agent list"
  sessions :: "chat_session list"
  messages :: "message list"
  audio_files :: "string \<rightharpoonup> nat list"
  gateway_log :: "(gw_call \<times> bool) list"

definition empty_world :: world where
  "empty_world = \<lparr>agents = [], sessions = [], messages = [], audio_files = Map.empty,
     gateway_log = []\<rparr>"

text \<open>
  The gateway itself is outside the repository: its three remote calls are parameters.
  Each returns the provider's answer (\<open>Inr\<close>) or the message of the exception it raises
  (\<open>Inl\<close>).
\<close>

record gateway =
  chat_completions_create :: "chat_entry list \<Rightarrow> string + string"
  transcriptions_create :: "string \<Rightarrow> nat list \<Rightarrow> string + string"
  speech_create :: "string \<Rightarrow> string + nat list"

text \<open>
  \<^verbatim>\<open>ORDER BY created_at ASC\<close> is executed by the storage engine, which receives the
  selected rows in the order of the table. Its procedure is the argument \<open>ord\<close> of the
  queries that use it. The engine of the repository is SQLite, in app/config.py
  (\<^verbatim>\<open>sqlite+aiosqlite:///./app.db\<close>) as in tests/conftest.py: it returns the rows in
  non-decreasing order of the key and leaves rows of equal key in the order of the table,
  which \<open>sort_key\<close> does as well.
\<close>

type_synonym order_by = "message list \<Rightarrow> message list"

definition order_by_stable :: order_by where
  "order_by_stable rows = sort_key m_created_at rows"

section \<open>Queries\<close>

definition scalar_one_or_none :: "'a list \<Rightarrow> error + 'a option" where
  "scalar_one_or_none rows =
     (case rows of
        [] \<Rightarrow> Inr None
      | [r] \<Rightarrow> Inr (Some r)
      | _ \<Rightarrow> Inl MultipleResultsFound)"

definition agent_not_found :: "uuid \<Rightarrow> error" where
  "agent_not_found agent_id = HTTP_404 (''Agent with id '' @ agent_id @ '' not found'')"

definition session_not_found :: "uuid \<Rightarrow> uuid \<Rightarrow> error" where
  "session_not_found session_id agent_id =
     HTTP_404 (''Session with id '' @ session_id @ '' not found for agent '' @ agent_id)"

definition get_agent_or_404 :: "uuid \<Rightarrow> world \<Rightarrow> error + agent" where
  "get_agent_or_404 agent_id w =
     (case scalar_one_or_none (filter (\<lambda>a. a_id a = agent_id) (agents w)) of
        Inl e \<Rightarrow> Inl e
      | Inr None \<Rightarrow> Inl (agent_not_found agent_id)
      | Inr (Some a) \<Rightarrow> Inr a)"

definition get_session_or_404 :: "uuid \<Rightarrow> uuid \<Rightarrow> world \<Rightarrow> error + chat_session" where
  "get_session_or_404 session_id agent_id w =
     (case scalar_one_or_none
             (filter (\<lambda>s. s_id s = session_id \<and> s_agent_id s = agent_id) (sessions w)) of
        Inl e \<Rightarrow> Inl e
      | Inr None \<Rightarrow> Inl (session_not_found session_id agent_id)
      | Inr (Some s) \<Rightarrow> Inr s)"

text \<open>The rows of \<^verbatim>\<open>select(Message).where(session_id == ...).order_by(created_at.asc())\<close>.\<close>

definition session_messages :: "order_by \<Rightarrow> uuid \<Rightarrow> world \<Rightarrow> message list" where
  "session_messages ord session_id w =
     ord (filter (\<lambda>m. m_session_id m = session_id) (messages w))"

definition build_conversation_history :: "order_by \<Rightarrow> uuid \<Rightarrow> world \<Rightarrow> chat_entry list" where
  "build_conversation_history ord session_id w =
     map (\<lambda>msg. \<lparr>role = m_role msg, content = m_content msg\<rparr>)
       (session_messages ord session_id w)"

section \<open>Commits\<close>

text \<open>
  \<^verbatim>\<open>db.add(row); await db.commit(); await db.refresh(row)\<close>: the row is appended to
  its table, unless its primary key is already there, in which case the commit raises.
\<close>

definition add_agent :: "agent \<Rightarrow> world \<Rightarrow> error + world" where
  "add_agent a w =
     (if a_id a \<in> set (map a_id (agents w)) then Inl IntegrityError
      else Inr (w\<lparr>agents := agents w @ [a]\<rparr>))"

definition add_session :: "chat_session \<Rightarrow> world \<Rightarrow> error + world" where
  "add_session s w =
     (if s_id s \<in> set (map s_id (sessions w)) then Inl IntegrityError
      else Inr (w\<lparr>sessions := sessions w @ [s]\<rparr>))"

definition add_message :: "message \<Rightarrow> world \<Rightarrow> error + world" where
  "add_message m w =
     (if m_id m \<in> set (map m_id (messages w)) then Inl IntegrityError
      else Inr (w\<lparr>messages := messages w @ [m]\<rparr>))"

section \<open>Default session titles (app/routers/sessions.py)\<close>

text \<open>Decimal digits of a natural number, as \<^verbatim>\<open>str(n)\<close> and the f-string print it.\<close>

definition digit_char :: "nat \<Rightarrow> char" where
  "digit_char d = ''0123456789'' ! d"

fun str_nat :: "nat \<Rightarrow> string" where
  "str_nat n = (if n < 10 then [digit_char n] else str_nat (n div 10) @ [digit_char (n mod 10)])"

declare str_nat.simps [simp del]

text \<open>Two digits with a leading zero, as \<^verbatim>\<open>%I\<close>, \<^verbatim>\<open>%M\<close> and \<^verbatim>\<open>%S\<close> print.\<close>

definition two_digits :: "nat \<Rightarrow> string" where
  "two_digits n = [digit_char (n div 10 mod 10), digit_char (n mod 10)]"

definition hour_of :: "datetime \<Rightarrow> nat" where
  "hour_of t = t div 1000000 div 3600 mod 24"

definition minute_of :: "datetime \<Rightarrow> nat" where
  "minute_of t = t div 1000000 div 60 mod 60"

definition second_of :: "datetime \<Rightarrow> nat" where
  "second_of t = t div 1000000 mod 60"

text \<open>The hour of the 12-hour clock, \<open>1\<close> to \<open>12\<close>.\<close>

definition hour12 :: "datetime \<Rightarrow> nat" where
  "hour12 t = (if hour_of t mod 12 = 0 then 12 else hour_of t mod 12)"

text \<open>\<^verbatim>\<open>now.strftime("%I:%M:%S %p")\<close>, in the C locale.\<close>

definition strftime_IMSp :: "datetime \<Rightarrow> string" where
  "strftime_IMSp t =
     two_digits (hour12 t) @ '':'' @ two_digits (minute_of t) @ '':'' @
     two_digits (second_of t) @ '' '' @ (if hour_of t < 12 then ''AM'' else ''PM'')"

definition lstrip0 :: "string \<Rightarrow> string" where
  "lstrip0 s = dropWhile (\<lambda>c. c = CHR ''0'') s"

definition default_title :: "nat \<Rightarrow> datetime \<Rightarrow> string" where
  "default_title n now = ''Chat '' @ str_nat n @ '' ('' @ lstrip0 (strftime_IMSp now) @ '')''"

text \<open>
  \<^verbatim>\<open>create_session\<close>. \<open>new_id\<close> and \<open>created\<close> are the column defaults of the new
  row, \<open>now\<close> is the clock reading used for the title. \<^verbatim>\<open>if not title\<close> holds for
  \<^verbatim>\<open>None\<close> and for the empty string.
\<close>

definition create_session ::
  "uuid \<Rightarrow> datetime \<Rightarrow> datetime \<Rightarrow> uuid \<Rightarrow> string option \<Rightarrow> world \<Rightarrow> (error + chat_session) \<times> world"
where
  "create_session new_id created now agent_id payload_title w =
     (case get_agent_or_404 agent_id w of
        Inl e \<Rightarrow> (Inl e, w)
      | Inr _ \<Rightarrow>
          let title =
                (if payload_title = None \<or> payload_title = Some []
                 then Some (default_title
                        (length (filter (\<lambda>s. s_agent_id s = agent_id) (sessions w)) + 1) now)
                 else payload_title);
              session = \<lparr>s_id = new_id, s_agent_id = agent_id, s_title = title,
                         s_created_at = created\<rparr>
          in (case add_session session w of
                Inl e \<Rightarrow> (Inl e, w)
              | Inr w' \<Rightarrow> (Inr session, w')))"

definition get_session :: "uuid \<Rightarrow> uuid \<Rightarrow> world \<Rightarrow> (error + chat_session) \<times> world" where
  "get_session agent_id session_id w =
     (case get_agent_or_404 agent_id w of
        Inl e \<Rightarrow> (Inl e, w)
      | Inr _ \<Rightarrow>
          (case scalar_one_or_none
                  (filter (\<lambda>s. s_id s = session_id \<and> s_agent_id s = agent_id) (sessions w)) of
             Inl e \<Rightarrow> (Inl e, w)
           | Inr None \<Rightarrow> (Inl (session_not_found session_id agent_id), w)
           | Inr (Some s) \<Rightarrow> (Inr s, w)))"

text \<open>
  \<^verbatim>\<open>delete_session\<close> does not look the agent up. \<^verbatim>\<open>db.delete(session)\<close> cascades
  to the session's messages (\<^verbatim>\<open>cascade="all, delete-orphan"\<close>).
\<close>

definition delete_session :: "uuid \<Rightarrow> uuid \<Rightarrow> world \<Rightarrow> (error + unit) \<times> world" where
  "delete_session agent_id session_id w =
     (case scalar_one_or_none
             (filter (\<lambda>s. s_id s = session_id \<and> s_agent_id s = agent_id) (sessions w)) of
        Inl e \<Rightarrow> (Inl e, w)
      | Inr None \<Rightarrow> (Inl (session_not_found session_id agent_id), w)
      | Inr (Some s) \<Rightarrow>
          (Inr (),
           w\<lparr>sessions := filter (\<lambda>x. s_id x \<noteq> s_id s) (sessions w),
             messages := filter (\<lambda>m. m_session_id m \<noteq> s_id s) (messages w)\<rparr>))"

section \<open>Agents (app/routers/agents.py)\<close>

text \<open>
  The handlers of this file write the agent lookup out in place; it is the same query
  and the same 404 as \<open>get_agent_or_404\<close>. The two timestamps of a new row are two
  evaluations of the column default.
\<close>

definition create_agent ::
  "uuid \<Rightarrow> datetime \<Rightarrow> datetime \<Rightarrow> string \<Rightarrow> string \<Rightarrow> world \<Rightarrow> (error + agent) \<times> world"
where
  "create_agent new_id created updated name prompt w =
     (let agent = \<lparr>a_id = new_id, a_name = name, a_prompt = prompt, a_created_at = created,
                    a_updated_at = updated\<rparr>
      in (case add_agent agent w of
            Inl e \<Rightarrow> (Inl e, w)
          | Inr w' \<Rightarrow> (Inr agent, w')))"

definition get_agent :: "uuid \<Rightarrow> world \<Rightarrow> (error + agent) \<times> world" where
  "get_agent agent_id w = (get_agent_or_404 agent_id w, w)"

text \<open>
  \<^verbatim>\<open>setattr(agent, field, value)\<close> for a field of \<^verbatim>\<open>update_data\<close>: the column value
  after the loop, \<open>None\<close> when the request gave an explicit \<^verbatim>\<open>null\<close>.
\<close>

definition set_field :: "string option option \<Rightarrow> string \<Rightarrow> string option" where
  "set_field upd old = (case upd of None \<Rightarrow> Some old | Some v \<Rightarrow> v)"

text \<open>
  \<^verbatim>\<open>update_agent\<close>. Both columns are \<^verbatim>\<open>NOT NULL\<close>, so the commit raises on a
  \<^verbatim>\<open>null\<close>, and the session is closed without a write. \<^verbatim>\<open>onupdate\<close> renews
  \<open>updated_at\<close> when the commit writes a changed column.
\<close>

definition update_agent ::
  "datetime \<Rightarrow> uuid \<Rightarrow> agent_update \<Rightarrow> world \<Rightarrow> (error + agent) \<times> world"
where
  "update_agent now agent_id payload w =
     (case get_agent_or_404 agent_id w of
        Inl e \<Rightarrow> (Inl e, w)
      | Inr agent \<Rightarrow>
          (case (set_field (u_name payload) (a_name agent),
                 set_field (u_prompt payload) (a_prompt agent)) of
             (Some name, Some prompt) \<Rightarrow>
               let agent' = agent\<lparr>a_name := name, a_prompt := prompt,
                     a_updated_at :=
                       (if name \<noteq> a_name agent \<or> prompt \<noteq> a_prompt agent then now
                        else a_updated_at agent)\<rparr>
               in (Inr agent',
                   w\<lparr>agents := map (\<lambda>a. if a_id a = agent_id then agent' else a) (agents w)\<rparr>)
           | _ \<Rightarrow> (Inl IntegrityError, w)))"

text \<open>
  \<^verbatim>\<open>delete_agent\<close>. \<^verbatim>\<open>db.delete(agent)\<close> cascades along both relationships of
  app/models.py: the agent's sessions, and the messages of those sessions.
\<close>

definition delete_agent :: "uuid \<Rightarrow> world \<Rightarrow> (error + unit) \<times> world" where
  "delete_agent agent_id w =
     (case get_agent_or_404 agent_id w of
        Inl e \<Rightarrow> (Inl e, w)
      | Inr agent \<Rightarrow>
          let sids = map s_id (filter (\<lambda>s. s_agent_id s = a_id agent) (sessions w))
          in (Inr (),
              w\<lparr>agents := filter (\<lambda>a. a_id a \<noteq> a_id agent) (agents w),
                sessions := filter (\<lambda>s. s_agent_id s \<noteq> a_id agent) (sessions w),
                messages := filter (\<lambda>m. m_session_id m \<notin> set sids) (messages w)\<rparr>))"

section \<open>Gateway adapters (app/services)\<close>

definition log_call :: "gw_call \<Rightarrow> bool \<Rightarrow> world \<Rightarrow> world" where
  "log_call c ok w = w\<lparr>gateway_log := gateway_log w @ [(c, ok)]\<rparr>"

definition generate_chat_response ::
  "gateway \<Rightarrow> chat_entry list \<Rightarrow> world \<Rightarrow> (error + string) \<times> world"
where
  "generate_chat_response gw msgs w =
     (case chat_completions_create gw msgs of
        Inl x \<Rightarrow> (Inl (UpstreamError x), log_call (CompleteChat msgs) False w)
      | Inr text \<Rightarrow> (Inr text, log_call (CompleteChat msgs) True w))"

text \<open>The temporary file is rendered by its suffix and its bytes.\<close>

definition transcribe_audio ::
  "gateway \<Rightarrow> string \<Rightarrow> nat list \<Rightarrow> world \<Rightarrow> (error + string) \<times> world"
where
  "transcribe_audio gw suffix bytes w =
     (case transcriptions_create gw suffix bytes of
        Inl x \<Rightarrow> (Inl (UpstreamError x), log_call (Transcribe suffix bytes) False w)
      | Inr text \<Rightarrow> (Inr text, log_call (Transcribe suffix bytes) True w))"

text \<open>\<^verbatim>\<open>generate_speech\<close> writes the file only after the remote call has returned.\<close>

definition generate_speech ::
  "gateway \<Rightarrow> string \<Rightarrow> string \<Rightarrow> world \<Rightarrow> (error + unit) \<times> world"
where
  "generate_speech gw text output_path w =
     (case speech_create gw text of
        Inl x \<Rightarrow> (Inl (UpstreamError x), log_call (Synthesize text) False w)
      | Inr audio_data \<Rightarrow>
          (Inr (),
           (log_call (Synthesize text) True w)
             \<lparr>audio_files := (audio_files w)(output_path \<mapsto> audio_data)\<rparr>))"

section \<open>Messages (app/routers/messages.py)\<close>

definition new_message :: "uuid \<Rightarrow> datetime \<Rightarrow> uuid \<Rightarrow> string \<Rightarrow> string \<Rightarrow> message" where
  "new_message new_id created session_id r c =
     \<lparr>m_id = new_id, m_session_id = session_id, m_role = r, m_content = c,
      m_audio_url = None, m_created_at = created\<rparr>"

definition system_entry :: "agent \<Rightarrow> chat_entry" where
  "system_entry agent = \<lparr>role = ''system'', content = a_prompt agent\<rparr>"

text \<open>
  \<^verbatim>\<open>send_message\<close>. \<open>uid\<close>, \<open>ut\<close> are the identifier and the timestamp of the user
  row, \<open>aid\<close>, \<open>at\<close> those of the assistant row. Every commit is final: an error after
  it returns the world as the last commit and the gateway calls left it.
\<close>

definition send_message ::
  "order_by \<Rightarrow> gateway \<Rightarrow> uuid \<Rightarrow> datetime \<Rightarrow> uuid \<Rightarrow> datetime \<Rightarrow> uuid \<Rightarrow> uuid \<Rightarrow> string \<Rightarrow> world
     \<Rightarrow> (error + message \<times> message) \<times> world"
where
  "send_message ord gw uid ut aid at agent_id session_id payload_content w =
     (case get_agent_or_404 agent_id w of
        Inl e \<Rightarrow> (Inl e, w)
      | Inr agent \<Rightarrow>
     (case get_session_or_404 session_id agent_id w of
        Inl e \<Rightarrow> (Inl e, w)
      | Inr _ \<Rightarrow>
     (let user_message = new_message uid ut session_id ''user'' payload_content in
      case add_message user_message w of
        Inl e \<Rightarrow> (Inl e, w)
      | Inr w1 \<Rightarrow>
     (let conversation = build_conversation_history ord session_id w1;
          full_messages = system_entry agent # conversation in
      case generate_chat_response gw full_messages w1 of
        (Inl e, w2) \<Rightarrow> (Inl e, w2)
      | (Inr assistant_text, w2) \<Rightarrow>
     (let assistant_message = new_message aid at session_id ''assistant'' assistant_text in
      case add_message assistant_message w2 of
        Inl e \<Rightarrow> (Inl e, w2)
      | Inr w3 \<Rightarrow> (Inr (user_message, assistant_message), w3))))))"

definition list_messages ::
  "order_by \<Rightarrow> uuid \<Rightarrow> uuid \<Rightarrow> world \<Rightarrow> (error + message list) \<times> world"
where
  "list_messages ord agent_id session_id w =
     (case get_agent_or_404 agent_id w of
        Inl e \<Rightarrow> (Inl e, w)
      | Inr _ \<Rightarrow>
     (case get_session_or_404 session_id agent_id w of
        Inl e \<Rightarrow> (Inl e, w)
      | Inr _ \<Rightarrow> (Inr (session_messages ord session_id w), w)))"

text \<open>
  The extension \<^verbatim>\<open>os.path.splitext(p)[1]\<close> on a POSIX path: from the last dot of the
  last path component, provided a character other than a dot stands before it there.
\<close>

definition splitext_ext :: "string \<Rightarrow> string" where
  "splitext_ext p =
     (let base = rev (takeWhile (\<lambda>c. c \<noteq> CHR ''/'') (rev p));
          ext_rev = takeWhile (\<lambda>c. c \<noteq> CHR ''.'') (rev base);
          stem = rev (drop (length ext_rev + 1) (rev base))
      in if CHR ''.'' \<in> set base \<and> (\<exists>c \<in> set stem. c \<noteq> CHR ''.'')
         then CHR ''.'' # rev ext_rev else [])"

definition upload_suffix :: "string option \<Rightarrow> string" where
  "upload_suffix filename =
     (let name = (case filename of None \<Rightarrow> ''audio.webm''
                  | Some f \<Rightarrow> if f = [] then ''audio.webm'' else f);
          ext = splitext_ext name
      in if ext = [] then ''.webm'' else ext)"

text \<open>\<^verbatim>\<open>UPDATE messages SET audio_url = ? WHERE id = ?\<close>, by the last commit.\<close>

definition set_audio_url :: "uuid \<Rightarrow> string \<Rightarrow> world \<Rightarrow> world" where
  "set_audio_url mid url w =
     w\<lparr>messages :=
         map (\<lambda>m. if m_id m = mid then m\<lparr>m_audio_url := Some url\<rparr> else m) (messages w)\<rparr>"

text \<open>
  \<^verbatim>\<open>tempfile.NamedTemporaryFile(delete=False, suffix=suffix)\<close> opens a file named
  \<^verbatim>\<open>tmp\<close>, eight generated characters and the suffix. Opening raises
  \<^verbatim>\<open>ValueError\<close> when the name holds a NUL character, and \<^verbatim>\<open>OSError\<close> when
  the name is longer than the 255 bytes that a file name may have.
\<close>

definition named_temporary_file :: "string \<Rightarrow> error + unit" where
  "named_temporary_file suffix =
     (if CHR 0x00 \<in> set suffix then Inl ValueError
      else if 255 < 3 + 8 + length suffix then Inl OSError
      else Inr ())"

text \<open>
  \<^verbatim>\<open>voice_interaction\<close>. \<open>hex\<close> is \<^verbatim>\<open>uuid.uuid4().hex\<close>; \<open>filename\<close> and
  \<open>audio_bytes\<close> are the upload. The temporary file is created before the
  \<^verbatim>\<open>try\<close> block, so its exceptions leave the handler before any gateway call.
\<close>

definition voice_interaction ::
  "order_by \<Rightarrow> gateway \<Rightarrow> uuid \<Rightarrow> datetime \<Rightarrow> uuid \<Rightarrow> datetime \<Rightarrow> string \<Rightarrow> uuid \<Rightarrow> uuid
     \<Rightarrow> string option \<Rightarrow> nat list \<Rightarrow> world \<Rightarrow> (error + message \<times> message) \<times> world"
where
  "voice_interaction ord gw uid ut aid at hex agent_id session_id filename audio_bytes w =
     (case get_agent_or_404 agent_id w of
        Inl e \<Rightarrow> (Inl e, w)
      | Inr agent \<Rightarrow>
     (case get_session_or_404 session_id agent_id w of
        Inl e \<Rightarrow> (Inl e, w)
      | Inr _ \<Rightarrow>
     (case named_temporary_file (upload_suffix filename) of
        Inl e \<Rightarrow> (Inl e, w)
      | Inr _ \<Rightarrow>
     (case transcribe_audio gw (upload_suffix filename) audio_bytes w of
        (Inl e, w0) \<Rightarrow> (Inl e, w0)
      | (Inr transcription_text, w0) \<Rightarrow>
     (let user_message = new_message uid ut session_id ''user'' transcription_text in
      case add_message user_message w0 of
        Inl e \<Rightarrow> (Inl e, w0)
      | Inr w1 \<Rightarrow>
     (let conversation = build_conversation_history ord session_id w1;
          full_messages = system_entry agent # conversation in
      case generate_chat_response gw full_messages w1 of
        (Inl e, w2) \<Rightarrow> (Inl e, w2)
      | (Inr assistant_text, w2) \<Rightarrow>
     (let assistant_message = new_message aid at session_id ''assistant'' assistant_text in
      case add_message assistant_message w2 of
        Inl e \<Rightarrow> (Inl e, w2)
      | Inr w3 \<Rightarrow>
     (let audio_filename = hex @ ''.mp3'';
          audio_path = ''audio_files/'' @ audio_filename in
      case generate_speech gw assistant_text audio_path w3 of
        (Inl e, w4) \<Rightarrow> (Inl e, w4)
      | (Inr _, w4) \<Rightarrow>
     (let audio_url = ''/api/audio/'' @ audio_filename in
      (Inr (user_message, assistant_message\<lparr>m_audio_url := Some audio_url\<rparr>),
       set_audio_url aid audio_url w4))))))))))"

section \<open>Requests and reachable worlds\<close>

text \<open>
  One constructor per handler that writes. The handlers that only read
  (\<^verbatim>\<open>get_agent\<close>, \<^verbatim>\<open>list_agents\<close>, \<^verbatim>\<open>get_session\<close>, \<^verbatim>\<open>list_sessions\<close>,
  \<^verbatim>\<open>list_messages\<close>) return the world they were given. A world is reachable when a
  sequence of requests leads to it from the empty store.
\<close>

datatype request =
    Create_agent uuid datetime datetime string string
  | Update_agent datetime uuid agent_update
  | Delete_agent uuid
  | Create_session uuid datetime datetime uuid "string option"
  | Delete_session uuid uuid
  | Send_message gateway uuid datetime uuid datetime uuid uuid string
  | Voice_interaction gateway uuid datetime uuid datetime string uuid uuid "string option"
      "nat list"

fun handle :: "order_by \<Rightarrow> request \<Rightarrow> world \<Rightarrow> world" where
  "handle ord (Create_agent new_id created updated name prompt) w =
     snd (create_agent new_id created updated name prompt w)"
| "handle ord (Update_agent now agent_id payload) w = snd (update_agent now agent_id payload w)"
| "handle ord (Delete_agent agent_id) w = snd (delete_agent agent_id w)"
| "handle ord (Create_session new_id created now agent_id title) w =
     snd (create_session new_id created now agent_id title w)"
| "handle ord (Delete_session agent_id session_id) w = snd (delete_session agent_id session_id w)"
| "handle ord (Send_message gw uid ut aid at agent_id session_id c) w =
     snd (send_message ord gw uid ut aid at agent_id session_id c w)"
| "handle ord (Voice_interaction gw uid ut aid at hex agent_id session_id filename bytes) w =
     snd (voice_interaction ord gw uid ut aid at hex agent_id session_id filename bytes w)"

inductive reachable :: "order_by \<Rightarrow> world \<Rightarrow> bool" for ord :: order_by where
  start: "reachable ord empty_world"
| step: "reachable ord w \<Longrightarrow> reachable ord (handle ord r w)"

section \<open>Fixtures (tests/conftest.py)\<close>

text \<open>The agent and the session that the test suite creates before each test.\<close>

definition created_agent :: agent where
  "created_agent = \<lparr>a_id = ''agent-1'', a_name = ''Test Agent'',
     a_prompt = ''You are a test agent.'', a_created_at = 1000, a_updated_at = 1000\<rparr>"

definition created_session :: chat_session where
  "created_session = \<lparr>s_id = ''session-1'', s_agent_id = ''agent-1'',
     s_title = Some ''Test Session'', s_created_at = 2000\<rparr>"

definition fixture_world :: world where
  "fixture_world = empty_world\<lparr>agents := [created_agent], sessions := [created_session]\<rparr>"

text \<open>
  A second agent with a session of its own, the two messages of
  \<^verbatim>\<open>test_send_message\<close>, and the gateway as the tests patch it.
\<close>

definition other_agent :: agent where
  "other_agent = \<lparr>a_id = ''agent-2'', a_name = ''Other Agent'',
     a_prompt = ''You are another agent.'', a_created_at = 1500, a_updated_at = 1500\<rparr>"

definition other_session :: chat_session where
  "other_session = \<lparr>s_id = ''session-9'', s_agent_id = ''agent-2'',
     s_title = Some ''Other Session'', s_created_at = 2500\<rparr>"

definition hi_there :: message where
  "hi_there = \<lparr>m_id = ''message-1'', m_session_id = ''session-1'', m_role = ''user'',
     m_content = ''Hi there'', m_audio_url = None, m_created_at = 3000\<rparr>"

definition hello_reply :: message where
  "hello_reply = \<lparr>m_id = ''message-2'', m_session_id = ''session-1'', m_role = ''assistant'',
     m_content = ''Hello! How can I help you?'', m_audio_url = None, m_created_at = 4000\<rparr>"

definition other_message :: message where
  "other_message = \<lparr>m_id = ''message-9'', m_session_id = ''session-9'', m_role = ''user'',
     m_content = ''Elsewhere'', m_audio_url = None, m_created_at = 3500\<rparr>"

definition two_agent_world :: world where
  "two_agent_world = empty_world\<lparr>agents := [created_agent, other_agent],
     sessions := [created_session, other_session],
     messages := [hi_there, hello_reply, other_message]\<rparr>"

definition stub_gateway :: gateway where
  "stub_gateway = \<lparr>chat_completions_create = (\<lambda>_. Inr ''Hello! How can I help you?''),
     transcriptions_create = (\<lambda>_ _. Inr ''Hello voice''),
     speech_create = (\<lambda>_. Inr [0, 1, 2])\<rparr>"

definition failing_chat_gateway :: gateway where
  "failing_chat_gateway =
     stub_gateway\<lparr>chat_completions_create := (\<lambda>_. Inl ''rate limit exceeded'')\<rparr>"

definition failing_speech_gateway :: gateway where
  "failing_speech_gateway = stub_gateway\<lparr>speech_create := (\<lambda>_. Inl ''rate limit exceeded'')\<rparr>"

section \<open>Primary keys\<close>

text \<open>
  Each \<open>id\<close> column is declared \<^verbatim>\<open>primary_key=True\<close>: a store holds no two rows of a
  table with the same identifier.
\<close>

definition primary_keys :: "world \<Rightarrow> bool" where
  "primary_keys w =
     (distinct (map a_id (agents w)) \<and> distinct (map s_id (sessions w)) \<and>
      distinct (map m_id (messages w)))"

section \<open>Equal timestamps\<close>

text \<open>
  The store after one \<^verbatim>\<open>send_message\<close> whose two rows received the same clock
  reading.
\<close>

definition tie_world :: world where
  "tie_world = fixture_world\<lparr>messages := [hi_there, hello_reply\<lparr>m_created_at := 3000\<rparr>]\<rparr>"

section \<open>Reading the gateway trace\<close>

text \<open>The message sequences of the chat completion calls recorded in a trace, in order.\<close>

definition chat_calls :: "(gw_call \<times> bool) list \<Rightarrow> chat_entry list list" where
  "chat_calls log =
     concat (map (\<lambda>(c, ok). case c of CompleteChat msgs \<Rightarrow> [msgs] | _ \<Rightarrow> []) log)"

section \<open>Audio references\<close>

text \<open>
  What it is for the speech synthesis of a message to have succeeded, read off the world:
  the message is an assistant reply, a synthesis call for its content has returned, and
  its audio reference is \<^verbatim>\<open>/api/audio/\<close> followed by the name of an
  \<^verbatim>\<open>.mp3\<close> file that is in the audio directory.
\<close>

definition synthesized :: "world \<Rightarrow> message \<Rightarrow> bool" where
  "synthesized w m =
     (m_role m = ''assistant'' \<and>
      (Synthesize (m_content m), True) \<in> set (gateway_log w) \<and>
      (case m_audio_url m of
         None \<Rightarrow> False
       | Some u \<Rightarrow>
           take 11 u = ''/api/audio/'' \<and> drop (length u - 4) u = ''.mp3'' \<and>
           audio_files w (''audio_files/'' @ drop 11 u) \<noteq> None))"

section \<open>Lookups\<close>

lemma scalar_one_or_none_simps [simp]:
  "scalar_one_or_none [] = Inr None"
  "scalar_one_or_none [r] = Inr (Some r)"
  "scalar_one_or_none (r # r' # rs) = Inl MultipleResultsFound"
  by (simp_all add: scalar_one_or_none_def)

lemma scalar_one_or_none_Some: "(scalar_one_or_none rows = Inr (Some r)) = (rows = [r])"
  by (auto simp: scalar_one_or_none_def split: list.splits)

lemma scalar_one_or_none_None: "(scalar_one_or_none rows = Inr None) = (rows = [])"
  by (auto simp: scalar_one_or_none_def split: list.splits)

lemma get_agent_or_404_Inr:
  "(get_agent_or_404 i w = Inr a) = (filter (\<lambda>x. a_id x = i) (agents w) = [a])"
  by (auto simp: get_agent_or_404_def scalar_one_or_none_def split: list.splits)

lemma get_agent_or_404_missing:
  "filter (\<lambda>x. a_id x = i) (agents w) = [] \<Longrightarrow> get_agent_or_404 i w = Inl (agent_not_found i)"
  by (simp add: get_agent_or_404_def)

lemma get_session_or_404_Inr:
  "(get_session_or_404 sid i w = Inr s) =
   (filter (\<lambda>x. s_id x = sid \<and> s_agent_id x = i) (sessions w) = [s])"
  by (auto simp: get_session_or_404_def scalar_one_or_none_def split: list.splits)

lemma get_session_or_404_missing:
  "filter (\<lambda>x. s_id x = sid \<and> s_agent_id x = i) (sessions w) = [] \<Longrightarrow>
   get_session_or_404 sid i w = Inl (session_not_found sid i)"
  by (simp add: get_session_or_404_def)

lemma hour12_range: "1 \<le> hour12 t \<and> hour12 t \<le> 12"
  by (simp add: hour12_def)

lemma hour_cases:
  assumes "1 \<le> h" "h \<le> 12"
  shows "h = 1 \<or> h = 2 \<or> h = 3 \<or> h = 4 \<or> h = 5 \<or> h = 6 \<or> h = 7 \<or> h = 8 \<or> h = 9 \<or>
         h = 10 \<or> h = 11 \<or> h = (12::nat)"
  using assms by arith

lemma lstrip0_two_digits:
  assumes "1 \<le> h" "h \<le> 12"
  shows "lstrip0 (two_digits h @ rest) = str_nat h @ rest"
proof -
  from hour_cases [OF assms] show ?thesis
    by (elim disjE) (simp_all add: lstrip0_def two_digits_def digit_char_def str_nat.simps)
qed

lemma str_nat_hour_no_zero:
  assumes "1 \<le> h" "h \<le> 12"
  shows "hd (str_nat h) \<noteq> CHR ''0''"
proof -
  from hour_cases [OF assms] show ?thesis
    by (elim disjE) (simp_all add: digit_char_def str_nat.simps)
qed

lemma default_title_eq:
  "default_title n now =
     ''Chat '' @ str_nat n @ '' ('' @ str_nat (hour12 now) @ '':'' @ two_digits (minute_of now) @
     '':'' @ two_digits (second_of now) @ '' '' @ (if hour_of now < 12 then ''AM'' else ''PM'') @ '')''"
  using hour12_range [of now]
  by (simp add: default_title_def strftime_IMSp_def lstrip0_two_digits)


lemma add_message_Inr:
  "(add_message m w = Inr w') =
   (m_id m \<notin> m_id ` set (messages w) \<and> w' = w\<lparr>messages := messages w @ [m]\<rparr>)"
  by (auto simp: add_message_def)

lemma add_message_Inl:
  "(add_message m w = Inl e) = (m_id m \<in> m_id ` set (messages w) \<and> e = IntegrityError)"
  by (auto simp: add_message_def)

lemma log_call_simps [simp]:
  "agents (log_call c ok w) = agents w"
  "sessions (log_call c ok w) = sessions w"
  "messages (log_call c ok w) = messages w"
  "audio_files (log_call c ok w) = audio_files w"
  "gateway_log (log_call c ok w) = gateway_log w @ [(c, ok)]"
  by (simp_all add: log_call_def)

lemma generate_chat_response_cases:
  "generate_chat_response gw msgs w =
     (case chat_completions_create gw msgs of
        Inl x \<Rightarrow> Inl (UpstreamError x) | Inr t \<Rightarrow> Inr t,
      log_call (CompleteChat msgs) (isl (chat_completions_create gw msgs) = False) w)"
  by (simp add: generate_chat_response_def split: sum.splits)

lemma sessions_send_message [simp]:
  "sessions (snd (send_message ord gw uid ut aid at agent_id session_id c w)) = sessions w"
  by (auto simp: send_message_def Let_def add_message_def generate_chat_response_def
      split: sum.splits prod.splits)

lemma sessions_voice_interaction [simp]:
  "sessions (snd (voice_interaction ord gw uid ut aid at hex agent_id session_id fn bs w)) = sessions w"
  by (auto simp: voice_interaction_def Let_def add_message_def generate_chat_response_def
      transcribe_audio_def generate_speech_def set_audio_url_def
      split: sum.splits prod.splits)

lemma sessions_create_agent [simp]:
  "sessions (snd (create_agent i c u n p w)) = sessions w"
  by (auto simp: create_agent_def Let_def add_agent_def)

lemma sessions_update_agent [simp]:
  "sessions (snd (update_agent now i payload w)) = sessions w"
  by (auto simp: update_agent_def Let_def split: sum.splits option.splits)

lemma sessions_delete_agent:
  "set (sessions (snd (delete_agent i w))) \<subseteq> set (sessions w)"
  by (auto simp: delete_agent_def Let_def split: sum.splits)

lemma sessions_delete_session:
  "set (sessions (snd (delete_session i sid w))) \<subseteq> set (sessions w)"
  by (auto simp: delete_session_def Let_def split: sum.splits option.splits)

lemma sessions_create_session:
  "x \<in> set (sessions (snd (create_session i c now a t w))) \<Longrightarrow>
   x \<in> set (sessions w) \<or> s_id x \<notin> s_id ` set (sessions w)"
  by (auto simp: create_session_def Let_def add_session_def split: sum.splits if_splits)

lemma handle_sessions:
  assumes "x \<in> set (sessions (handle ord r w))"
  shows "x \<in> set (sessions w) \<or> s_id x \<notin> s_id ` set (sessions w)"
proof (cases r)
  case (Delete_agent i)
  then show ?thesis using assms sessions_delete_agent [of i w] by auto
next
  case (Create_session i c now a t)
  then show ?thesis using assms sessions_create_session [of x i c now a t w] by simp
next
  case (Delete_session a sid)
  then show ?thesis using assms sessions_delete_session [of a sid w] by auto
qed (use assms in simp_all)

lemma create_session_Inr:
  assumes "create_session new_id created now agent_id t w = (Inr s, w')"
  shows "s = \<lparr>s_id = new_id, s_agent_id = agent_id,
               s_title = (if t = None \<or> t = Some [] then
                  Some (default_title
                    (length (filter (\<lambda>x. s_agent_id x = agent_id) (sessions w)) + 1) now)
                  else t),
               s_created_at = created\<rparr>"
    and "w' = w\<lparr>sessions := sessions w @ [s]\<rparr>"
    and "new_id \<notin> s_id ` set (sessions w)"
  using assms
  by (auto simp: create_session_def Let_def add_session_def split: sum.splits if_splits)

section \<open>Default titles\<close>

text \<open>
  Claim C7. A session created without a title gets, once, at creation, the title
  \<^verbatim>\<open>Chat {n} ({h:mm:ss AM/PM})\<close>: \<open>n\<close> is the number of sessions the agent has at
  that moment plus one, the hour is that of the 12-hour clock printed without a leading
  zero, minutes and seconds have two digits. With two sessions present the title starts
  with \<^verbatim>\<open>Chat 3 (\<close>. The row is stored as returned, and no later request changes
  it: after any request, a row with this identifier is the row created here.
\<close>

theorem create_session_default_title:
  assumes "create_session new_id created now agent_id None w = (Inr s, w')"
  shows "s_title s =
           Some (''Chat '' @
             str_nat (length (filter (\<lambda>x. s_agent_id x = agent_id) (sessions w)) + 1) @
             '' ('' @ str_nat (hour12 now) @ '':'' @ two_digits (minute_of now) @ '':'' @
             two_digits (second_of now) @ '' '' @
             (if hour_of now < 12 then ''AM'' else ''PM'') @ '')'') \<and>
         1 \<le> hour12 now \<and> hour12 now \<le> 12 \<and> hd (str_nat (hour12 now)) \<noteq> CHR ''0'' \<and>
         (length (filter (\<lambda>x. s_agent_id x = agent_id) (sessions w)) = 2 \<longrightarrow>
            (\<exists>rest. s_title s = Some (''Chat 3 ('' @ rest))) \<and>
         sessions w' = sessions w @ [s] \<and>
         (\<forall>ord r. \<forall>x \<in> set (sessions (handle ord r w')). s_id x = new_id \<longrightarrow> x = s)"
proof -
  note r = create_session_Inr [OF assms]
  have t: "s_title s = Some (default_title
      (length (filter (\<lambda>x. s_agent_id x = agent_id) (sessions w)) + 1) now)"
    by (subst r(1)) simp
  have sid: "s_id s = new_id" by (subst r(1)) simp
  have rows: "sessions w' = sessions w @ [s]" by (subst r(2)) simp
  have keep: "x = s" if "x \<in> set (sessions (handle ord r w'))" "s_id x = new_id" for ord r x
  proof -
    from handle_sessions [OF that(1)] that(2) rows sid
    have "x \<in> set (sessions w')" by auto
    with rows r(3) that(2) show ?thesis by auto
  qed
  have three: "\<exists>rest. s_title s = Some (''Chat 3 ('' @ rest)"
    if "length (filter (\<lambda>x. s_agent_id x = agent_id) (sessions w)) = 2"
    using t that by (simp add: default_title_eq str_nat.simps digit_char_def)
  from hour12_range [of now] str_nat_hour_no_zero [of "hour12 now"] t rows keep three
  show ?thesis by (simp add: default_title_eq)
qed

lemma fixture_agent_lookup:
  "get_agent_or_404 ''agent-1'' (fixture_world\<lparr>sessions := ss\<rparr>) = Inr created_agent"
  by (simp add: get_agent_or_404_def fixture_world_def empty_world_def created_agent_def)

theorem create_session_default_title_witness:
  "create_session ''session-3'' 3000 47107000000 ''agent-1'' None
     (fixture_world\<lparr>sessions := [created_session, created_session\<lparr>s_id := ''session-2''\<rparr>]\<rparr>) =
   (Inr \<lparr>s_id = ''session-3'', s_agent_id = ''agent-1'',
          s_title = Some ''Chat 3 (1:05:07 PM)'', s_created_at = 3000\<rparr>,
    fixture_world\<lparr>sessions := [created_session, created_session\<lparr>s_id := ''session-2''\<rparr>,
      \<lparr>s_id = ''session-3'', s_agent_id = ''agent-1'',
       s_title = Some ''Chat 3 (1:05:07 PM)'', s_created_at = 3000\<rparr>]\<rparr>) \<and>
   hour12 47107000000 = 1 \<and>
   (\<exists>rest. Some ''Chat 3 (1:05:07 PM)'' = Some (''Chat 3 ('' @ rest))"
proof -
  let ?w = "fixture_world\<lparr>sessions := [created_session, created_session\<lparr>s_id := ''session-2''\<rparr>]\<rparr>"
  let ?s = "\<lparr>s_id = ''session-3'', s_agent_id = ''agent-1'',
          s_title = Some ''Chat 3 (1:05:07 PM)'', s_created_at = 3000\<rparr>"
  have h: "create_session ''session-3'' 3000 47107000000 ''agent-1'' None ?w =
      (Inr ?s, ?w\<lparr>sessions := sessions ?w @ [?s]\<rparr>)"
    by (simp add: create_session_def Let_def fixture_agent_lookup add_session_def created_session_def
        default_title_def lstrip0_def strftime_IMSp_def two_digits_def hour12_def hour_of_def
        minute_of_def second_of_def digit_char_def str_nat.simps)
  have n: "length (filter (\<lambda>x. s_agent_id x = ''agent-1'') (sessions ?w)) = 2"
    by (simp add: created_session_def)
  have hr: "hour12 47107000000 = 1"
    by (simp add: hour12_def hour_of_def)
  from create_session_default_title [OF h] n have "\<exists>rest. s_title ?s = Some (''Chat 3 ('' @ rest)"
    by blast
  with h hr show ?thesis by simp
qed

text \<open>
  Claim C10. A request whose title is the empty string is handled exactly as a request
  with no title, whatever the outcome; when a session is created, its stored title is the
  generated default and not the empty string.
\<close>

theorem create_session_empty_title:
  assumes "create_session new_id created now agent_id (Some []) w = (Inr s, w')"
  shows "create_session new_id created now agent_id (Some []) w =
           create_session new_id created now agent_id None w \<and>
         s_title s = Some (default_title
           (length (filter (\<lambda>x. s_agent_id x = agent_id) (sessions w)) + 1) now) \<and>
         s_title s \<noteq> Some [] \<and>
         sessions w' = sessions w @ [s]"
proof -
  have eq: "create_session new_id created now agent_id (Some []) w =
      create_session new_id created now agent_id None w"
    by (simp add: create_session_def)
  note r = create_session_Inr [OF assms]
  have t: "s_title s = Some (default_title
      (length (filter (\<lambda>x. s_agent_id x = agent_id) (sessions w)) + 1) now)"
    by (subst r(1)) simp
  have rows: "sessions w' = sessions w @ [s]" by (subst r(2)) simp
  from eq t rows show ?thesis by (simp add: default_title_def)
qed

theorem create_session_empty_title_witness:
  "create_session ''session-2'' 3000 47107000000 ''agent-1'' (Some []) fixture_world =
     (Inr \<lparr>s_id = ''session-2'', s_agent_id = ''agent-1'',
            s_title = Some ''Chat 2 (1:05:07 PM)'', s_created_at = 3000\<rparr>,
      fixture_world\<lparr>sessions := [created_session,
        \<lparr>s_id = ''session-2'', s_agent_id = ''agent-1'',
         s_title = Some ''Chat 2 (1:05:07 PM)'', s_created_at = 3000\<rparr>]\<rparr>) \<and>
   create_session ''session-2'' 3000 47107000000 ''agent-1'' None fixture_world =
     (Inr \<lparr>s_id = ''session-2'', s_agent_id = ''agent-1'',
            s_title = Some ''Chat 2 (1:05:07 PM)'', s_created_at = 3000\<rparr>,
      fixture_world\<lparr>sessions := [created_session,
        \<lparr>s_id = ''session-2'', s_agent_id = ''agent-1'',
         s_title = Some ''Chat 2 (1:05:07 PM)'', s_created_at = 3000\<rparr>]\<rparr>)"
proof -
  let ?s = "\<lparr>s_id = ''session-2'', s_agent_id = ''agent-1'',
          s_title = Some ''Chat 2 (1:05:07 PM)'', s_created_at = 3000\<rparr>"
  have a: "get_agent_or_404 ''agent-1'' fixture_world = Inr created_agent"
    using fixture_agent_lookup [of "sessions fixture_world"] by simp
  have ss: "sessions fixture_world = [created_session]"
    by (simp add: fixture_world_def empty_world_def)
  have h: "create_session ''session-2'' 3000 47107000000 ''agent-1'' (Some []) fixture_world =
      (Inr ?s, fixture_world\<lparr>sessions := [created_session, ?s]\<rparr>)"
    by (simp add: create_session_def Let_def a ss add_session_def created_session_def
        default_title_def lstrip0_def strftime_IMSp_def two_digits_def hour12_def hour_of_def
        minute_of_def second_of_def digit_char_def str_nat.simps)
  from create_session_empty_title [OF h]
  have e: "create_session ''session-2'' 3000 47107000000 ''agent-1'' (Some []) fixture_world =
      create_session ''session-2'' 3000 47107000000 ''agent-1'' None fixture_world"
    by (rule conjunct1)
  from h have n: "create_session ''session-2'' 3000 47107000000 ''agent-1'' None fixture_world =
      (Inr ?s, fixture_world\<lparr>sessions := [created_session, ?s]\<rparr>)"
    unfolding e .
  from h n show ?thesis by (rule conjI)
qed

section \<open>Sending a text message\<close>

lemma new_message_simps [simp]:
  "m_id (new_message i t sid r c) = i"
  "m_session_id (new_message i t sid r c) = sid"
  "m_role (new_message i t sid r c) = r"
  "m_content (new_message i t sid r c) = c"
  "m_audio_url (new_message i t sid r c) = None"
  "m_created_at (new_message i t sid r c) = t"
  by (simp_all add: new_message_def)

lemma send_message_found:
  assumes "get_agent_or_404 agent_id w = Inr agent"
    and "get_session_or_404 session_id agent_id w = Inr s"
  shows "send_message ord gw uid ut aid at agent_id session_id c w =
    (let um = new_message uid ut session_id ''user'' c;
         w1 = w\<lparr>messages := messages w @ [um]\<rparr>;
         full = system_entry agent # build_conversation_history ord session_id w1
     in if uid \<in> m_id ` set (messages w) then (Inl IntegrityError, w)
        else (case chat_completions_create gw full of
                Inl x \<Rightarrow> (Inl (UpstreamError x), log_call (CompleteChat full) False w1)
              | Inr text \<Rightarrow>
                  let am = new_message aid at session_id ''assistant'' text;
                      w2 = log_call (CompleteChat full) True w1
                  in if aid \<in> m_id ` set (messages w1) then (Inl IntegrityError, w2)
                     else (Inr (um, am), w2\<lparr>messages := messages w1 @ [am]\<rparr>)))"
  using assms
  by (simp add: send_message_def Let_def add_message_def generate_chat_response_def
      split: sum.splits)

lemma voice_interaction_no_tempfile:
  assumes "get_agent_or_404 agent_id w = Inr agent"
    and "get_session_or_404 session_id agent_id w = Inr s"
    and "named_temporary_file (upload_suffix fn) = Inl e"
  shows "voice_interaction ord gw uid ut aid at hex agent_id session_id fn bs w = (Inl e, w)"
  using assms by (simp add: voice_interaction_def)

lemma voice_interaction_found:
  assumes "get_agent_or_404 agent_id w = Inr agent"
    and "get_session_or_404 session_id agent_id w = Inr s"
    and "named_temporary_file (upload_suffix fn) = Inr ()"
  shows "voice_interaction ord gw uid ut aid at hex agent_id session_id fn bs w =
    (case transcriptions_create gw (upload_suffix fn) bs of
       Inl x \<Rightarrow> (Inl (UpstreamError x), log_call (Transcribe (upload_suffix fn) bs) False w)
     | Inr tr \<Rightarrow>
    (let w0 = log_call (Transcribe (upload_suffix fn) bs) True w;
         um = new_message uid ut session_id ''user'' tr;
         w1 = w0\<lparr>messages := messages w @ [um]\<rparr>;
         full = system_entry agent # build_conversation_history ord session_id w1
     in if uid \<in> m_id ` set (messages w) then (Inl IntegrityError, w0)
        else (case chat_completions_create gw full of
                Inl x \<Rightarrow> (Inl (UpstreamError x), log_call (CompleteChat full) False w1)
              | Inr text \<Rightarrow>
                  let am = new_message aid at session_id ''assistant'' text;
                      w2 = log_call (CompleteChat full) True w1;
                      w3 = w2\<lparr>messages := messages w1 @ [am]\<rparr>;
                      url = ''/api/audio/'' @ hex @ ''.mp3''
                  in if aid \<in> m_id ` set (messages w1) then (Inl IntegrityError, w2)
                     else (case speech_create gw text of
                             Inl x \<Rightarrow> (Inl (UpstreamError x), log_call (Synthesize text) False w3)
                           | Inr data \<Rightarrow>
                               (Inr (um, am\<lparr>m_audio_url := Some url\<rparr>),
                                set_audio_url aid url
                                  ((log_call (Synthesize text) True w3)
                                     \<lparr>audio_files :=
                                        (audio_files w)(''audio_files/'' @ hex @ ''.mp3'' \<mapsto> data)\<rparr>))))))"
  using assms
  by (simp add: voice_interaction_def Let_def add_message_def generate_chat_response_def
      transcribe_audio_def generate_speech_def
      split: sum.splits)

text \<open>
  Claim C1. \<^verbatim>\<open>send_message\<close> returns a pair of messages exactly when the agent exists,
  the session belongs to it, both new identifiers are unused and the gateway returns a
  text. Then the store holds the messages it held before followed by the two new rows, the
  user row first: role \<^verbatim>\<open>user\<close> with the request's content, then role
  \<^verbatim>\<open>assistant\<close> with the gateway's text, both for the given session and both without
  an audio reference; the pair returned is these two rows. Agents, sessions and audio
  files are as before, and the gateway was called once.
\<close>

theorem send_message_success:
  "send_message ord gw uid ut aid at agent_id session_id c w = (Inr (um, am), w') \<longleftrightarrow>
   (\<exists>agent s text.
      get_agent_or_404 agent_id w = Inr agent \<and>
      get_session_or_404 session_id agent_id w = Inr s \<and>
      uid \<notin> m_id ` set (messages w) \<and> aid \<notin> m_id ` set (messages w) \<and> aid \<noteq> uid \<and>
      um = \<lparr>m_id = uid, m_session_id = session_id, m_role = ''user'', m_content = c,
             m_audio_url = None, m_created_at = ut\<rparr> \<and>
      chat_completions_create gw
        (system_entry agent #
           build_conversation_history ord session_id (w\<lparr>messages := messages w @ [um]\<rparr>)) =
        Inr text \<and>
      am = \<lparr>m_id = aid, m_session_id = session_id, m_role = ''assistant'', m_content = text,
             m_audio_url = None, m_created_at = at\<rparr> \<and>
      w' = w\<lparr>messages := messages w @ [um, am],
             gateway_log := gateway_log w @
               [(CompleteChat (system_entry agent #
                   build_conversation_history ord session_id
                     (w\<lparr>messages := messages w @ [um]\<rparr>)), True)]\<rparr>)"
  (is "?L \<longleftrightarrow> ?R")
proof
  assume l: ?L
  obtain agent where a: "get_agent_or_404 agent_id w = Inr agent"
    using l by (cases "get_agent_or_404 agent_id w") (auto simp: send_message_def)
  obtain s where s: "get_session_or_404 session_id agent_id w = Inr s"
    using l a by (cases "get_session_or_404 session_id agent_id w") (auto simp: send_message_def)
  from l show ?R
    unfolding send_message_found [OF a s]
    by (auto simp: a s Let_def new_message_def log_call_def split: if_splits sum.splits)
next
  assume ?R
  then obtain agent s reply where
    a: "get_agent_or_404 agent_id w = Inr agent" and
    s: "get_session_or_404 session_id agent_id w = Inr s" and
    rest: "uid \<notin> m_id ` set (messages w)" "aid \<notin> m_id ` set (messages w)" "aid \<noteq> uid"
      "um = \<lparr>m_id = uid, m_session_id = session_id, m_role = ''user'', m_content = c,
             m_audio_url = None, m_created_at = ut\<rparr>"
      "chat_completions_create gw
        (system_entry agent #
           build_conversation_history ord session_id (w\<lparr>messages := messages w @ [um]\<rparr>)) =
        Inr reply"
      "am = \<lparr>m_id = aid, m_session_id = session_id, m_role = ''assistant'', m_content = reply,
             m_audio_url = None, m_created_at = at\<rparr>"
      "w' = w\<lparr>messages := messages w @ [um, am],
             gateway_log := gateway_log w @
               [(CompleteChat (system_entry agent #
                   build_conversation_history ord session_id
                     (w\<lparr>messages := messages w @ [um]\<rparr>)), True)]\<rparr>"
    by blast
  show ?L
    unfolding send_message_found [OF a s]
    using rest by (simp add: Let_def new_message_def log_call_def)
qed

text \<open>
  Claim C3. When the call of the chat gateway raises, \<^verbatim>\<open>send_message\<close> ends with that
  error, unhandled. The world it leaves is the one of the commit made before the call,
  with the call recorded: the user row is stored, and no assistant row has been added.
\<close>

theorem send_message_gateway_failure:
  assumes "get_agent_or_404 agent_id w = Inr agent"
    and "get_session_or_404 session_id agent_id w = Inr s"
    and "uid \<notin> m_id ` set (messages w)"
    and "um = \<lparr>m_id = uid, m_session_id = session_id, m_role = ''user'', m_content = c,
               m_audio_url = None, m_created_at = ut\<rparr>"
    and "chat_completions_create gw
           (system_entry agent #
              build_conversation_history ord session_id (w\<lparr>messages := messages w @ [um]\<rparr>)) =
         Inl x"
  shows "send_message ord gw uid ut aid at agent_id session_id c w =
     (Inl (UpstreamError x),
      w\<lparr>messages := messages w @ [um],
        gateway_log := gateway_log w @
          [(CompleteChat (system_entry agent #
              build_conversation_history ord session_id
                (w\<lparr>messages := messages w @ [um]\<rparr>)), False)]\<rparr>)"
  unfolding send_message_found [OF assms(1,2)]
  using assms(3-5) by (simp add: Let_def new_message_def log_call_def)

section \<open>Sessions are looked up under their agent\<close>

text \<open>
  Claim C5, as amended. When no session row has both the given identifier and the given
  agent (the identifier is unknown, or its session belongs to another agent), the four
  operations end with the same error and leave the world as it was: no row is written and
  the gateway is not called. For an agent that exists the error is the 404 of the
  session; when the agent lookup itself fails, it is the error of that lookup, which comes
  first.
\<close>

theorem session_not_found_for_agent:
  assumes "\<forall>s \<in> set (sessions w). s_id s = session_id \<longrightarrow> s_agent_id s \<noteq> agent_id"
    and "e = (case get_agent_or_404 agent_id w of
                Inl e' \<Rightarrow> e' | Inr _ \<Rightarrow> session_not_found session_id agent_id)"
  shows "send_message ord gw uid ut aid at agent_id session_id c w = (Inl e, w) \<and>
         voice_interaction ord gw uid ut aid at hex agent_id session_id filename bytes w =
           (Inl e, w) \<and>
         list_messages ord agent_id session_id w = (Inl e, w) \<and>
         get_session agent_id session_id w = (Inl e, w)"
proof -
  from assms(1) have
    "filter (\<lambda>s. s_id s = session_id \<and> s_agent_id s = agent_id) (sessions w) = []"
    by (auto simp: filter_empty_conv)
  then have "get_session_or_404 session_id agent_id w =
      Inl (session_not_found session_id agent_id)"
    and "scalar_one_or_none
      (filter (\<lambda>s. s_id s = session_id \<and> s_agent_id s = agent_id) (sessions w)) = Inr None"
    by (simp_all add: get_session_or_404_def)
  then show ?thesis
    using assms(2)
    by (simp add: send_message_def voice_interaction_def list_messages_def get_session_def
        split: sum.splits)
qed

section \<open>The handlers on the fixtures\<close>

lemma fixture_lookups:
  "get_agent_or_404 ''agent-1'' (fixture_world\<lparr>messages := ms\<rparr>) = Inr created_agent"
  "get_session_or_404 ''session-1'' ''agent-1'' (fixture_world\<lparr>messages := ms\<rparr>) =
     Inr created_session"
  "get_agent_or_404 ''agent-1'' fixture_world = Inr created_agent"
  "get_session_or_404 ''session-1'' ''agent-1'' fixture_world = Inr created_session"
  by (simp_all add: get_agent_or_404_def get_session_or_404_def fixture_world_def
      empty_world_def created_agent_def created_session_def)

lemma fixture_world_fields [simp]:
  "agents fixture_world = [created_agent]"
  "sessions fixture_world = [created_session]"
  "messages fixture_world = []"
  "gateway_log fixture_world = []"
  "audio_files fixture_world = Map.empty"
  by (simp_all add: fixture_world_def empty_world_def)

lemma fixture_history:
  "build_conversation_history (sort_key m_created_at) ''session-1''
     (fixture_world\<lparr>messages := [hi_there]\<rparr>) = [\<lparr>role = ''user'', content = ''Hi there''\<rparr>]"
  by (simp add: build_conversation_history_def session_messages_def hi_there_def)

theorem send_message_success_witness:
  "send_message (sort_key m_created_at) stub_gateway ''message-1'' 3000 ''message-2'' 4000
     ''agent-1'' ''session-1'' ''Hi there'' fixture_world =
   (Inr (hi_there, hello_reply),
    fixture_world\<lparr>messages := [hi_there, hello_reply],
      gateway_log := [(CompleteChat [\<lparr>role = ''system'', content = ''You are a test agent.''\<rparr>,
                                     \<lparr>role = ''user'', content = ''Hi there''\<rparr>], True)]\<rparr>)"
proof -
  have "\<exists>agent s text.
      get_agent_or_404 ''agent-1'' fixture_world = Inr agent \<and>
      get_session_or_404 ''session-1'' ''agent-1'' fixture_world = Inr s \<and>
      ''message-1'' \<notin> m_id ` set (messages fixture_world) \<and>
      ''message-2'' \<notin> m_id ` set (messages fixture_world) \<and> ''message-2'' \<noteq> ''message-1'' \<and>
      hi_there = \<lparr>m_id = ''message-1'', m_session_id = ''session-1'', m_role = ''user'',
             m_content = ''Hi there'', m_audio_url = None, m_created_at = 3000\<rparr> \<and>
      chat_completions_create stub_gateway
        (system_entry agent #
           build_conversation_history (sort_key m_created_at) ''session-1''
             (fixture_world\<lparr>messages := messages fixture_world @ [hi_there]\<rparr>)) =
        Inr text \<and>
      hello_reply = \<lparr>m_id = ''message-2'', m_session_id = ''session-1'', m_role = ''assistant'',
             m_content = text, m_audio_url = None, m_created_at = 4000\<rparr> \<and>
      fixture_world\<lparr>messages := [hi_there, hello_reply],
        gateway_log := [(CompleteChat [\<lparr>role = ''system'', content = ''You are a test agent.''\<rparr>,
                                     \<lparr>role = ''user'', content = ''Hi there''\<rparr>], True)]\<rparr> =
      fixture_world\<lparr>messages := messages fixture_world @ [hi_there, hello_reply],
             gateway_log := gateway_log fixture_world @
               [(CompleteChat (system_entry agent #
                   build_conversation_history (sort_key m_created_at) ''session-1''
                     (fixture_world\<lparr>messages := messages fixture_world @ [hi_there]\<rparr>)), True)]\<rparr>"
    apply (rule exI [of _ created_agent])
    apply (rule exI [of _ created_session])
    apply (rule exI [of _ "''Hello! How can I help you?''"])
    apply (simp add: fixture_lookups fixture_history system_entry_def stub_gateway_def)
    apply (simp add: hi_there_def hello_reply_def created_agent_def)
    done
  then show ?thesis
    by (rule send_message_success [THEN iffD2])
qed

theorem send_message_gateway_failure_witness:
  "send_message (sort_key m_created_at) failing_chat_gateway ''message-1'' 3000 ''message-2'' 4000
     ''agent-1'' ''session-1'' ''Hi there'' fixture_world =
   (Inl (UpstreamError ''rate limit exceeded''),
    fixture_world\<lparr>messages := [hi_there],
      gateway_log := [(CompleteChat [\<lparr>role = ''system'', content = ''You are a test agent.''\<rparr>,
                                     \<lparr>role = ''user'', content = ''Hi there''\<rparr>], False)]\<rparr>)"
proof -
  have fresh: "''message-1'' \<notin> m_id ` set (messages fixture_world)" by simp
  have um: "hi_there = \<lparr>m_id = ''message-1'', m_session_id = ''session-1'', m_role = ''user'',
      m_content = ''Hi there'', m_audio_url = None, m_created_at = 3000\<rparr>"
    by (simp add: hi_there_def)
  have fail: "chat_completions_create failing_chat_gateway
      (system_entry created_agent #
         build_conversation_history (sort_key m_created_at) ''session-1''
           (fixture_world\<lparr>messages := messages fixture_world @ [hi_there]\<rparr>)) =
      Inl ''rate limit exceeded''"
    by (simp add: failing_chat_gateway_def stub_gateway_def)
  from send_message_gateway_failure [OF fixture_lookups(3) fixture_lookups(4) fresh um fail,
      where at = 4000 and aid = "''message-2''"]
  show ?thesis
    by (simp add: fixture_history system_entry_def created_agent_def)
qed

lemma two_agent_world_fields [simp]:
  "agents two_agent_world = [created_agent, other_agent]"
  "sessions two_agent_world = [created_session, other_session]"
  "messages two_agent_world = [hi_there, hello_reply, other_message]"
  "gateway_log two_agent_world = []"
  "audio_files two_agent_world = Map.empty"
  by (simp_all add: two_agent_world_def empty_world_def)

theorem session_not_found_for_agent_witness:
  "send_message (sort_key m_created_at) stub_gateway ''message-3'' 5000 ''message-4'' 6000
     ''agent-2'' ''session-1'' ''Hello'' two_agent_world =
     (Inl (session_not_found ''session-1'' ''agent-2''), two_agent_world) \<and>
   voice_interaction (sort_key m_created_at) stub_gateway ''message-3'' 5000 ''message-4'' 6000
     ''0f'' ''agent-2'' ''session-1'' (Some ''recording.webm'') [0, 0] two_agent_world =
     (Inl (session_not_found ''session-1'' ''agent-2''), two_agent_world) \<and>
   list_messages (sort_key m_created_at) ''agent-2'' ''session-1'' two_agent_world =
     (Inl (session_not_found ''session-1'' ''agent-2''), two_agent_world) \<and>
   get_session ''agent-2'' ''session-1'' two_agent_world =
     (Inl (session_not_found ''session-1'' ''agent-2''), two_agent_world) \<and>
   get_session ''agent-1'' ''session-1'' two_agent_world = (Inr created_session, two_agent_world)"
proof -
  have h: "\<forall>s \<in> set (sessions two_agent_world).
      s_id s = ''session-1'' \<longrightarrow> s_agent_id s \<noteq> ''agent-2''"
    by (simp add: created_session_def other_session_def)
  have e: "session_not_found ''session-1'' ''agent-2'' =
      (case get_agent_or_404 ''agent-2'' two_agent_world of
         Inl e' \<Rightarrow> e' | Inr _ \<Rightarrow> session_not_found ''session-1'' ''agent-2'')"
    by (simp add: get_agent_or_404_def created_agent_def other_agent_def)
  have own: "get_session ''agent-1'' ''session-1'' two_agent_world =
      (Inr created_session, two_agent_world)"
    by (simp add: get_session_def get_agent_or_404_def created_agent_def other_agent_def
        created_session_def other_session_def)
  from session_not_found_for_agent [OF h e] own show ?thesis by simp
qed

text \<open>
  The claim as written promises the session's 404 for every agent identifier. For an
  agent that does not exist the handlers raise the agent's 404 instead.
\<close>

theorem session_not_found_for_agent_counterexample:
  "''session-0'' \<notin> s_id ` set (sessions fixture_world) \<and>
   get_session ''agent-0'' ''session-0'' fixture_world =
     (Inl (agent_not_found ''agent-0''), fixture_world) \<and>
   list_messages (sort_key m_created_at) ''agent-0'' ''session-0'' fixture_world =
     (Inl (agent_not_found ''agent-0''), fixture_world) \<and>
   send_message (sort_key m_created_at) stub_gateway ''message-1'' 3000 ''message-2'' 4000
     ''agent-0'' ''session-0'' ''Hello'' fixture_world =
     (Inl (agent_not_found ''agent-0''), fixture_world) \<and>
   voice_interaction (sort_key m_created_at) stub_gateway ''message-1'' 3000 ''message-2'' 4000
     ''0f'' ''agent-0'' ''session-0'' (Some ''recording.webm'') [0, 0] fixture_world =
     (Inl (agent_not_found ''agent-0''), fixture_world) \<and>
   agent_not_found ''agent-0'' \<noteq> session_not_found ''session-0'' ''agent-0''"
  by (simp add: get_session_def list_messages_def send_message_def voice_interaction_def
      get_agent_or_404_def created_agent_def created_session_def agent_not_found_def
      session_not_found_def)

section \<open>Updating an agent\<close>

lemma get_agent_or_404_id: "get_agent_or_404 i w = Inr a \<Longrightarrow> a_id a = i"
proof -
  assume "get_agent_or_404 i w = Inr a"
  then have "filter (\<lambda>x. a_id x = i) (agents w) = [a]" by (simp add: get_agent_or_404_Inr)
  then have "a \<in> set (filter (\<lambda>x. a_id x = i) (agents w))" by simp
  then show ?thesis by simp
qed

lemma filter_map_replace:
  assumes "\<not> P y"
  shows "filter P (map (\<lambda>a. if \<not> P a then y else a) xs) = filter P xs"
  using assms by (induction xs) auto

lemma update_agent_frame:
  "sessions (snd (update_agent now i p w)) = sessions w \<and>
   messages (snd (update_agent now i p w)) = messages w \<and>
   audio_files (snd (update_agent now i p w)) = audio_files w \<and>
   gateway_log (snd (update_agent now i p w)) = gateway_log w \<and>
   filter (\<lambda>a. a_id a \<noteq> i) (agents (snd (update_agent now i p w))) =
     filter (\<lambda>a. a_id a \<noteq> i) (agents w)"
proof (cases "get_agent_or_404 i w")
  case (Inl e)
  then show ?thesis by (simp add: update_agent_def)
next
  case (Inr agent)
  have *: "filter (\<lambda>a. a_id a \<noteq> i) (map (\<lambda>a. if a_id a = i then y else a) (agents w)) =
      filter (\<lambda>a. a_id a \<noteq> i) (agents w)" if "a_id y = i" for y
    using filter_map_replace [of "\<lambda>a. a_id a \<noteq> i" y "agents w"] that by simp
  from Inr get_agent_or_404_id [OF Inr] show ?thesis
    by (simp add: update_agent_def Let_def * split: option.splits)
qed

lemma filter_single_unique:
  assumes "filter P xs = [y]" "x \<in> set xs" "P x"
  shows "x = y"
proof -
  from assms(2,3) have "x \<in> set (filter P xs)" by simp
  then show ?thesis by (simp add: assms(1))
qed

lemma update_agent_keys:
  "map a_id (agents (snd (update_agent now i p w))) = map a_id (agents w) \<and>
   map a_created_at (agents (snd (update_agent now i p w))) = map a_created_at (agents w)"
proof (cases "get_agent_or_404 i w")
  case (Inl e)
  then show ?thesis by (simp add: update_agent_def)
next
  case (Inr agent)
  then have f: "filter (\<lambda>x. a_id x = i) (agents w) = [agent]"
    by (simp add: get_agent_or_404_Inr)
  have same: "a = agent" if "a \<in> set (agents w)" "a_id a = i" for a
    using filter_single_unique [OF f that] .
  have k: "map a_id (map (\<lambda>a. if a_id a = i then y else a) (agents w)) = map a_id (agents w)"
    if "a_id y = i" for y
    using that by (induction "agents w") auto
  have c: "map a_created_at (map (\<lambda>a. if a_id a = i then y else a) (agents w)) =
      map a_created_at (agents w)"
    if "a_created_at y = a_created_at agent" for y
    using that same by (auto simp: map_eq_conv)
  from Inr get_agent_or_404_id [OF Inr] same show ?thesis
    by (auto simp: update_agent_def Let_def k split: option.splits)
qed

text \<open>
  Claim C9, as amended. For an agent that exists, \<^verbatim>\<open>update_agent\<close> with a body whose
  fields are absent or strings returns the agent with exactly the fields present replaced:
  an absent name leaves the name, an absent prompt leaves the prompt. Identifier and
  creation time are kept and the row replaces the old one in place. For every body, also
  one with a \<^verbatim>\<open>null\<close>, and for every outcome, the identifiers and creation times of
  all agents, every other agent, every session and every message are as before.
\<close>

theorem update_agent_partial:
  assumes "get_agent_or_404 agent_id w = Inr agent"
    and "update_agent now agent_id
           \<lparr>u_name = map_option Some name, u_prompt = map_option Some prompt\<rparr> w = (r, w')"
  shows "(\<exists>agent'. r = Inr agent' \<and>
            a_name agent' = (case name of None \<Rightarrow> a_name agent | Some v \<Rightarrow> v) \<and>
            a_prompt agent' = (case prompt of None \<Rightarrow> a_prompt agent | Some v \<Rightarrow> v) \<and>
            a_id agent' = a_id agent \<and> a_created_at agent' = a_created_at agent \<and>
            agents w' = map (\<lambda>a. if a_id a = agent_id then agent' else a) (agents w)) \<and>
         filter (\<lambda>a. a_id a \<noteq> agent_id) (agents w') =
           filter (\<lambda>a. a_id a \<noteq> agent_id) (agents w) \<and>
         sessions w' = sessions w \<and> messages w' = messages w \<and>
         audio_files w' = audio_files w \<and> gateway_log w' = gateway_log w \<and>
         (\<forall>p. sessions (snd (update_agent now agent_id p w)) = sessions w \<and>
              messages (snd (update_agent now agent_id p w)) = messages w \<and>
              filter (\<lambda>a. a_id a \<noteq> agent_id) (agents (snd (update_agent now agent_id p w))) =
                filter (\<lambda>a. a_id a \<noteq> agent_id) (agents w) \<and>
              map a_id (agents (snd (update_agent now agent_id p w))) = map a_id (agents w) \<and>
              map a_created_at (agents (snd (update_agent now agent_id p w))) =
                map a_created_at (agents w))"
proof -
  let ?p = "\<lparr>u_name = map_option Some name, u_prompt = map_option Some prompt\<rparr>"
  from assms(2) have w': "w' = snd (update_agent now agent_id ?p w)" by simp
  have frame: "filter (\<lambda>a. a_id a \<noteq> agent_id) (agents w') =
           filter (\<lambda>a. a_id a \<noteq> agent_id) (agents w) \<and>
         sessions w' = sessions w \<and> messages w' = messages w \<and>
         audio_files w' = audio_files w \<and> gateway_log w' = gateway_log w"
    unfolding w' using update_agent_frame [of now agent_id ?p w] by simp
  let ?n = "case name of None \<Rightarrow> a_name agent | Some v \<Rightarrow> v"
  let ?q = "case prompt of None \<Rightarrow> a_prompt agent | Some v \<Rightarrow> v"
  let ?a = "agent\<lparr>a_name := ?n, a_prompt := ?q,
    a_updated_at := (if ?n \<noteq> a_name agent \<or> ?q \<noteq> a_prompt agent then now
                     else a_updated_at agent)\<rparr>"
  have eq: "update_agent now agent_id ?p w =
      (Inr ?a, w\<lparr>agents := map (\<lambda>a. if a_id a = agent_id then ?a else a) (agents w)\<rparr>)"
    by (cases name; cases prompt) (simp_all add: update_agent_def assms(1) set_field_def Let_def)
  from trans [OF assms(2) [symmetric] eq] have r: "r = Inr ?a"
    and w'': "w' = w\<lparr>agents := map (\<lambda>a. if a_id a = agent_id then ?a else a) (agents w)\<rparr>"
    by (blast elim: Pair_inject)+
  have ag: "agents w' = map (\<lambda>a. if a_id a = agent_id then ?a else a) (agents w)"
    by (subst w'') simp
  have main: "\<exists>agent'. r = Inr agent' \<and>
            a_name agent' = (case name of None \<Rightarrow> a_name agent | Some v \<Rightarrow> v) \<and>
            a_prompt agent' = (case prompt of None \<Rightarrow> a_prompt agent | Some v \<Rightarrow> v) \<and>
            a_id agent' = a_id agent \<and> a_created_at agent' = a_created_at agent \<and>
            agents w' = map (\<lambda>a. if a_id a = agent_id then agent' else a) (agents w)"
    by (rule exI [of _ ?a]) (simp add: r ag)
  have every: "sessions (snd (update_agent now agent_id p w)) = sessions w \<and>
      messages (snd (update_agent now agent_id p w)) = messages w \<and>
      filter (\<lambda>a. a_id a \<noteq> agent_id) (agents (snd (update_agent now agent_id p w))) =
        filter (\<lambda>a. a_id a \<noteq> agent_id) (agents w) \<and>
      map a_id (agents (snd (update_agent now agent_id p w))) = map a_id (agents w) \<and>
      map a_created_at (agents (snd (update_agent now agent_id p w))) =
        map a_created_at (agents w)" for p
    using update_agent_frame [of now agent_id p w] update_agent_keys [of now agent_id p w]
    by blast
  from main frame every show ?thesis by blast
qed

theorem update_agent_partial_witness:
  "update_agent 9000 ''agent-1'' \<lparr>u_name = Some (Some ''New Name Only''), u_prompt = None\<rparr>
     two_agent_world =
   (Inr (created_agent\<lparr>a_name := ''New Name Only'', a_updated_at := 9000\<rparr>),
    two_agent_world\<lparr>agents :=
      [created_agent\<lparr>a_name := ''New Name Only'', a_updated_at := 9000\<rparr>, other_agent]\<rparr>) \<and>
   a_prompt (created_agent\<lparr>a_name := ''New Name Only'', a_updated_at := 9000\<rparr>) =
     ''You are a test agent.'' \<and>
   a_name (created_agent\<lparr>a_name := ''New Name Only'', a_updated_at := 9000\<rparr>) =
     ''New Name Only''"
proof -
  have a: "get_agent_or_404 ''agent-1'' two_agent_world = Inr created_agent"
    by (simp add: get_agent_or_404_def created_agent_def other_agent_def)
  have h: "update_agent 9000 ''agent-1''
      \<lparr>u_name = map_option Some (Some ''New Name Only''), u_prompt = map_option Some None\<rparr>
      two_agent_world =
    (Inr (created_agent\<lparr>a_name := ''New Name Only'', a_updated_at := 9000\<rparr>),
     two_agent_world\<lparr>agents :=
       [created_agent\<lparr>a_name := ''New Name Only'', a_updated_at := 9000\<rparr>, other_agent]\<rparr>)"
    by (simp add: update_agent_def a set_field_def Let_def)
      (simp add: created_agent_def other_agent_def)
  from update_agent_partial [OF a h]
  have "a_prompt (created_agent\<lparr>a_name := ''New Name Only'', a_updated_at := 9000\<rparr>) =
      a_prompt created_agent"
    by auto
  with h show ?thesis by (simp add: created_agent_def)
qed

text \<open>
  The claim as written covers every partial body. The schema also admits a field that is
  present with \<^verbatim>\<open>null\<close>; then the commit raises and the other field of the request,
  a string, is not written either.
\<close>

theorem update_agent_partial_counterexample:
  "update_agent 9000 ''agent-1'' \<lparr>u_name = Some None, u_prompt = Some (Some ''New prompt'')\<rparr>
     fixture_world = (Inl IntegrityError, fixture_world) \<and>
   agents fixture_world = [created_agent] \<and>
   a_prompt created_agent \<noteq> ''New prompt''"
  by (simp add: update_agent_def fixture_lookups set_field_def created_agent_def)

section \<open>Deleting an agent\<close>

lemma distinct_map_filter_unique:
  assumes "distinct (map f xs)" "x \<in> set xs" "y \<in> set xs" "f x = f y"
  shows "x = y"
  using assms by (meson distinct_map inj_on_def)

lemma distinct_filter_le_one:
  assumes "distinct (map f xs)"
  shows "filter (\<lambda>x. f x = k) xs = [] \<or> (\<exists>x. filter (\<lambda>x. f x = k) xs = [x])"
  using assms
proof (induction xs)
  case Nil
  then show ?case by simp
next
  case (Cons a xs)
  then show ?case by (auto simp: filter_empty_conv image_iff)
qed

lemma get_agent_or_404_distinct:
  assumes "distinct (map a_id (agents w))"
  shows "get_agent_or_404 b w = Inl (agent_not_found b) \<or> (\<exists>a. get_agent_or_404 b w = Inr a)"
  using distinct_filter_le_one [OF assms, of b]
  by (auto simp: get_agent_or_404_def)

lemma delete_agent_found:
  assumes "get_agent_or_404 agent_id w = Inr agent"
  shows "delete_agent agent_id w =
    (Inr (),
     w\<lparr>agents := filter (\<lambda>a. a_id a \<noteq> agent_id) (agents w),
       sessions := filter (\<lambda>s. s_agent_id s \<noteq> agent_id) (sessions w),
       messages := filter (\<lambda>m. m_session_id m \<notin>
           s_id ` {s \<in> set (sessions w). s_agent_id s = agent_id}) (messages w)\<rparr>)"
proof -
  have "set (map s_id (filter (\<lambda>s. s_agent_id s = agent_id) (sessions w))) =
      s_id ` {s \<in> set (sessions w). s_agent_id s = agent_id}"
    by auto
  with assms get_agent_or_404_id [OF assms] show ?thesis
    by (simp add: delete_agent_def Let_def)
qed

text \<open>
  Claim C8. Deleting an agent that exists, in a store that respects its primary keys,
  succeeds and removes the agent row, every session of the agent and every message of
  those sessions, and nothing else: the other agents, the sessions of other agents and the
  messages of those sessions stay. Afterwards \<^verbatim>\<open>get_agent\<close> on the identifier is a 404,
  and for each deleted session \<^verbatim>\<open>get_session\<close> and \<^verbatim>\<open>list_messages\<close> are a 404
  under the deleted agent's path (the agent's) and under any other path (the agent's or the
  session's).
\<close>

theorem delete_agent_cascade:
  assumes "get_agent_or_404 agent_id w = Inr agent"
    and "primary_keys w"
    and "delete_agent agent_id w = (r, w')"
  shows "r = Inr () \<and>
         agents w' = filter (\<lambda>a. a_id a \<noteq> agent_id) (agents w) \<and>
         sessions w' = filter (\<lambda>s. s_agent_id s \<noteq> agent_id) (sessions w) \<and>
         messages w' = filter (\<lambda>m. m_session_id m \<notin>
             s_id ` {s \<in> set (sessions w). s_agent_id s = agent_id}) (messages w) \<and>
         get_agent agent_id w' = (Inl (agent_not_found agent_id), w') \<and>
         (\<forall>s \<in> set (sessions w). s_agent_id s = agent_id \<longrightarrow>
            s \<notin> set (sessions w') \<and>
            (\<forall>m \<in> set (messages w'). m_session_id m \<noteq> s_id s) \<and>
            get_session agent_id (s_id s) w' = (Inl (agent_not_found agent_id), w') \<and>
            list_messages ord agent_id (s_id s) w' = (Inl (agent_not_found agent_id), w') \<and>
            (\<forall>b. get_session b (s_id s) w' = (Inl (agent_not_found b), w') \<or>
                 get_session b (s_id s) w' = (Inl (session_not_found (s_id s) b), w')) \<and>
            (\<forall>b. list_messages ord b (s_id s) w' = (Inl (agent_not_found b), w') \<or>
                 list_messages ord b (s_id s) w' = (Inl (session_not_found (s_id s) b), w'))) \<and>
         (\<forall>m \<in> set (messages w). \<forall>s \<in> set (sessions w).
            m_session_id m = s_id s \<and> s_agent_id s \<noteq> agent_id \<longrightarrow> m \<in> set (messages w'))"
proof -
  note d = delete_agent_found [OF assms(1)]
  from trans [OF assms(3) [symmetric] d] have r: "r = Inr ()"
    and w': "w' = w\<lparr>agents := filter (\<lambda>a. a_id a \<noteq> agent_id) (agents w),
       sessions := filter (\<lambda>s. s_agent_id s \<noteq> agent_id) (sessions w),
       messages := filter (\<lambda>m. m_session_id m \<notin>
           s_id ` {s \<in> set (sessions w). s_agent_id s = agent_id}) (messages w)\<rparr>"
    by (blast elim: Pair_inject)+
  have ag: "agents w' = filter (\<lambda>a. a_id a \<noteq> agent_id) (agents w)"
    and se: "sessions w' = filter (\<lambda>s. s_agent_id s \<noteq> agent_id) (sessions w)"
    and me: "messages w' = filter (\<lambda>m. m_session_id m \<notin>
             s_id ` {s \<in> set (sessions w). s_agent_id s = agent_id}) (messages w)"
    by (simp_all add: w')
  from assms(2) have da: "distinct (map a_id (agents w))" and ds: "distinct (map s_id (sessions w))"
    by (simp_all add: primary_keys_def)
  have gone: "get_agent_or_404 agent_id w' = Inl (agent_not_found agent_id)"
    by (rule get_agent_or_404_missing) (simp add: ag)
  have da': "distinct (map a_id (agents w'))"
    using da by (simp add: ag distinct_map_filter)
  have nosess: "filter (\<lambda>x. s_id x = s_id s \<and> s_agent_id x = b) (sessions w') = []"
    if s: "s \<in> set (sessions w)" "s_agent_id s = agent_id" for s b
  proof -
    have "x = s" if "x \<in> set (sessions w)" "s_id x = s_id s" for x
      using distinct_map_filter_unique [OF ds that(1) s(1) that(2)] .
    with s show ?thesis by (auto simp: se filter_empty_conv)
  qed
  have per_session: "s \<notin> set (sessions w') \<and>
            (\<forall>m \<in> set (messages w'). m_session_id m \<noteq> s_id s) \<and>
            get_session agent_id (s_id s) w' = (Inl (agent_not_found agent_id), w') \<and>
            list_messages ord agent_id (s_id s) w' = (Inl (agent_not_found agent_id), w') \<and>
            (\<forall>b. get_session b (s_id s) w' = (Inl (agent_not_found b), w') \<or>
                 get_session b (s_id s) w' = (Inl (session_not_found (s_id s) b), w')) \<and>
            (\<forall>b. list_messages ord b (s_id s) w' = (Inl (agent_not_found b), w') \<or>
                 list_messages ord b (s_id s) w' = (Inl (session_not_found (s_id s) b), w'))"
    if s: "s \<in> set (sessions w)" "s_agent_id s = agent_id" for s
  proof -
    have 1: "s \<notin> set (sessions w')" using s by (simp add: se)
    have 2: "\<forall>m \<in> set (messages w'). m_session_id m \<noteq> s_id s"
      using s by (auto simp: me)
    have 3: "get_session agent_id (s_id s) w' = (Inl (agent_not_found agent_id), w')"
      by (simp add: get_session_def gone)
    have 4: "list_messages ord agent_id (s_id s) w' = (Inl (agent_not_found agent_id), w')"
      by (simp add: list_messages_def gone)
    have 5: "get_session b (s_id s) w' = (Inl (agent_not_found b), w') \<or>
        get_session b (s_id s) w' = (Inl (session_not_found (s_id s) b), w')" for b
      using get_agent_or_404_distinct [OF da', of b] nosess [OF s, of b]
      by (auto simp: get_session_def)
    have 6: "list_messages ord b (s_id s) w' = (Inl (agent_not_found b), w') \<or>
        list_messages ord b (s_id s) w' = (Inl (session_not_found (s_id s) b), w')" for b
      using get_agent_or_404_distinct [OF da', of b]
        get_session_or_404_missing [OF nosess [OF s, of b]]
      by (auto simp: list_messages_def)
    from 1 2 3 4 5 6 show ?thesis by blast
  qed
  have others: "m \<in> set (messages w')"
    if "m \<in> set (messages w)" "s \<in> set (sessions w)" "m_session_id m = s_id s"
      "s_agent_id s \<noteq> agent_id" for m s
  proof -
    have "s_agent_id x \<noteq> agent_id" if "x \<in> set (sessions w)" "s_id x = m_session_id m" for x
      using distinct_map_filter_unique [OF ds that(1) \<open>s \<in> set (sessions w)\<close>]
        that(2) \<open>m_session_id m = s_id s\<close> \<open>s_agent_id s \<noteq> agent_id\<close> by auto
    then have "m_session_id m \<notin> s_id ` {s \<in> set (sessions w). s_agent_id s = agent_id}"
      by (auto simp: image_iff) metis
    with that(1) show ?thesis by (simp add: me)
  qed
  have g: "get_agent agent_id w' = (Inl (agent_not_found agent_id), w')"
    by (simp add: get_agent_def gone)
  from r ag se me g per_session others show ?thesis by blast
qed

lemma two_agent_world_after_delete:
  "delete_agent ''agent-1'' two_agent_world =
     (Inr (), two_agent_world\<lparr>agents := [other_agent], sessions := [other_session],
        messages := [other_message]\<rparr>)"
proof -
  have a: "get_agent_or_404 ''agent-1'' two_agent_world = Inr created_agent"
    by (simp add: get_agent_or_404_def created_agent_def other_agent_def)
  show ?thesis
    by (simp add: delete_agent_def a Let_def)
      (simp add: created_agent_def other_agent_def created_session_def
        other_session_def hi_there_def hello_reply_def other_message_def)
qed

lemma two_agent_world_primary_keys: "primary_keys two_agent_world"
  by (simp add: primary_keys_def created_agent_def other_agent_def created_session_def
      other_session_def hi_there_def hello_reply_def other_message_def)

theorem delete_agent_cascade_witness:
  "delete_agent ''agent-1'' two_agent_world =
     (Inr (), two_agent_world\<lparr>agents := [other_agent], sessions := [other_session],
        messages := [other_message]\<rparr>) \<and>
   get_agent ''agent-1''
     (two_agent_world\<lparr>agents := [other_agent], sessions := [other_session],
        messages := [other_message]\<rparr>) =
     (Inl (agent_not_found ''agent-1''),
      two_agent_world\<lparr>agents := [other_agent], sessions := [other_session],
        messages := [other_message]\<rparr>) \<and>
   get_session ''agent-1'' ''session-1''
     (two_agent_world\<lparr>agents := [other_agent], sessions := [other_session],
        messages := [other_message]\<rparr>) =
     (Inl (agent_not_found ''agent-1''),
      two_agent_world\<lparr>agents := [other_agent], sessions := [other_session],
        messages := [other_message]\<rparr>) \<and>
   list_messages (sort_key m_created_at) ''agent-1'' ''session-1''
     (two_agent_world\<lparr>agents := [other_agent], sessions := [other_session],
        messages := [other_message]\<rparr>) =
     (Inl (agent_not_found ''agent-1''),
      two_agent_world\<lparr>agents := [other_agent], sessions := [other_session],
        messages := [other_message]\<rparr>) \<and>
   other_message \<in> set (messages
     (two_agent_world\<lparr>agents := [other_agent], sessions := [other_session],
        messages := [other_message]\<rparr>))"
proof -
  define w' where "w' = two_agent_world\<lparr>agents := [other_agent], sessions := [other_session],
        messages := [other_message]\<rparr>"
  have a: "get_agent_or_404 ''agent-1'' two_agent_world = Inr created_agent"
    by (simp add: get_agent_or_404_def created_agent_def other_agent_def)
  have h: "delete_agent ''agent-1'' two_agent_world = (Inr (), w')"
    unfolding w'_def by (rule two_agent_world_after_delete)
  have s: "created_session \<in> set (sessions two_agent_world)"
    by simp
  have s': "s_agent_id created_session = ''agent-1''" "s_id created_session = ''session-1''"
    by (simp_all add: created_session_def)
  have o: "other_message \<in> set (messages two_agent_world)"
    "other_session \<in> set (sessions two_agent_world)"
    by simp_all
  have o': "m_session_id other_message = s_id other_session \<and>
      s_agent_id other_session \<noteq> ''agent-1''"
    by (simp add: other_message_def other_session_def)
  note t = delete_agent_cascade [OF a two_agent_world_primary_keys h,
      of "sort_key m_created_at"]
  from t have 1: "get_agent ''agent-1'' w' = (Inl (agent_not_found ''agent-1''), w')"
    by (elim conjE)
  from t have b: "\<forall>s \<in> set (sessions two_agent_world). s_agent_id s = ''agent-1'' \<longrightarrow>
      s \<notin> set (sessions w') \<and>
      (\<forall>m \<in> set (messages w'). m_session_id m \<noteq> s_id s) \<and>
      get_session ''agent-1'' (s_id s) w' = (Inl (agent_not_found ''agent-1''), w') \<and>
      list_messages (sort_key m_created_at) ''agent-1'' (s_id s) w' =
        (Inl (agent_not_found ''agent-1''), w') \<and>
      (\<forall>b. get_session b (s_id s) w' = (Inl (agent_not_found b), w') \<or>
           get_session b (s_id s) w' = (Inl (session_not_found (s_id s) b), w')) \<and>
      (\<forall>b. list_messages (sort_key m_created_at) b (s_id s) w' =
             (Inl (agent_not_found b), w') \<or>
           list_messages (sort_key m_created_at) b (s_id s) w' =
             (Inl (session_not_found (s_id s) b), w'))"
    by (elim conjE)
  from t have c: "\<forall>m \<in> set (messages two_agent_world). \<forall>s \<in> set (sessions two_agent_world).
      m_session_id m = s_id s \<and> s_agent_id s \<noteq> ''agent-1'' \<longrightarrow> m \<in> set (messages w')"
    by (elim conjE)
  from bspec [OF b s, rule_format, OF s'(1)]
  have 2: "get_session ''agent-1'' ''session-1'' w' = (Inl (agent_not_found ''agent-1''), w')"
    and 3: "list_messages (sort_key m_created_at) ''agent-1'' ''session-1'' w' =
      (Inl (agent_not_found ''agent-1''), w')"
    unfolding s'(2) by blast+
  from bspec [OF bspec [OF c o(1)] o(2), rule_format, OF o']
  have 4: "other_message \<in> set (messages w')" .
  from h 1 2 3 4 show ?thesis unfolding w'_def by (intro conjI)
qed

section \<open>The order of a session's messages\<close>

lemma order_by_stable_mset [simp]: "mset (order_by_stable rows) = mset rows"
  by (simp add: order_by_stable_def)

lemma order_by_stable_sorted [simp]: "sorted (map m_created_at (order_by_stable rows))"
  by (simp add: order_by_stable_def)

lemma order_by_stable_ties:
  "filter (\<lambda>m. m_created_at m = t) (order_by_stable rows) =
   filter (\<lambda>m. m_created_at m = t) rows"
  by (simp add: order_by_stable_def sort_key_stable)

lemma order_by_stable_sorted_id:
  "sorted (map m_created_at rows) \<Longrightarrow> order_by_stable rows = rows"
  by (simp add: order_by_stable_def sort_key_id_if_sorted)

text \<open>
  Claim C6. For an agent and a session that resolve, \<^verbatim>\<open>list_messages\<close> returns all the
  stored messages of the session, each as often as it is stored, in non-decreasing order
  of \<open>created_at\<close>; the messages that share a timestamp stand in the order in which
  they were inserted. So a table whose timestamps never decrease is returned as it was
  written. The history for the gateway prompt is role and content of the same rows. The
  world is left as it was.
\<close>

theorem list_messages_order:
  assumes "get_agent_or_404 agent_id w = Inr agent"
    and "get_session_or_404 session_id agent_id w = Inr s"
  shows "\<exists>rows. list_messages order_by_stable agent_id session_id w = (Inr rows, w) \<and>
           mset rows = mset (filter (\<lambda>m. m_session_id m = session_id) (messages w)) \<and>
           sorted (map m_created_at rows) \<and>
           (\<forall>t. filter (\<lambda>m. m_created_at m = t) rows =
                filter (\<lambda>m. m_created_at m = t)
                  (filter (\<lambda>m. m_session_id m = session_id) (messages w))) \<and>
           (sorted (map m_created_at
                (filter (\<lambda>m. m_session_id m = session_id) (messages w))) \<longrightarrow>
              rows = filter (\<lambda>m. m_session_id m = session_id) (messages w)) \<and>
           build_conversation_history order_by_stable session_id w =
             map (\<lambda>m. \<lparr>role = m_role m, content = m_content m\<rparr>) rows"
proof -
  let ?stored = "filter (\<lambda>m. m_session_id m = session_id) (messages w)"
  have "list_messages order_by_stable agent_id session_id w =
      (Inr (order_by_stable ?stored), w)"
    using assms by (simp add: list_messages_def session_messages_def)
  moreover have "build_conversation_history order_by_stable session_id w =
      map (\<lambda>m. \<lparr>role = m_role m, content = m_content m\<rparr>) (order_by_stable ?stored)"
    by (simp add: build_conversation_history_def session_messages_def)
  moreover have "sorted (map m_created_at ?stored) \<longrightarrow> order_by_stable ?stored = ?stored"
    by (simp add: order_by_stable_sorted_id)
  ultimately show ?thesis
    using order_by_stable_ties [of _ ?stored] by (intro exI [of _ "order_by_stable ?stored"]) simp
qed

lemma tie_world_fields [simp]:
  "agents tie_world = [created_agent]"
  "sessions tie_world = [created_session]"
  "messages tie_world = [hi_there, hello_reply\<lparr>m_created_at := 3000\<rparr>]"
  by (simp_all add: tie_world_def)

theorem list_messages_order_witness:
  "m_created_at hi_there = m_created_at (hello_reply\<lparr>m_created_at := 3000\<rparr>) \<and>
   messages tie_world = [hi_there, hello_reply\<lparr>m_created_at := 3000\<rparr>] \<and>
   list_messages order_by_stable ''agent-1'' ''session-1'' tie_world =
     (Inr [hi_there, hello_reply\<lparr>m_created_at := 3000\<rparr>], tie_world)"
proof -
  have a: "get_agent_or_404 ''agent-1'' tie_world = Inr created_agent"
    unfolding tie_world_def by (rule fixture_lookups(1))
  have s: "get_session_or_404 ''session-1'' ''agent-1'' tie_world = Inr created_session"
    unfolding tie_world_def by (rule fixture_lookups(2))
  have st: "filter (\<lambda>m. m_session_id m = ''session-1'') (messages tie_world) =
      [hi_there, hello_reply\<lparr>m_created_at := 3000\<rparr>]"
    by (simp add: hi_there_def hello_reply_def)
  have t: "m_created_at hi_there = m_created_at (hello_reply\<lparr>m_created_at := 3000\<rparr>)"
    by (simp add: hi_there_def)
  have so: "sorted (map m_created_at [hi_there, hello_reply\<lparr>m_created_at := 3000\<rparr>])"
    by (simp add: hi_there_def)
  from list_messages_order [OF a s, unfolded st]
  obtain rows where r: "list_messages order_by_stable ''agent-1'' ''session-1'' tie_world =
      (Inr rows, tie_world)"
    and i: "sorted (map m_created_at [hi_there, hello_reply\<lparr>m_created_at := 3000\<rparr>]) \<longrightarrow>
      rows = [hi_there, hello_reply\<lparr>m_created_at := 3000\<rparr>]"
    by blast
  from i so have "rows = [hi_there, hello_reply\<lparr>m_created_at := 3000\<rparr>]" by (rule mp)
  with r have l: "list_messages order_by_stable ''agent-1'' ''session-1'' tie_world =
     (Inr [hi_there, hello_reply\<lparr>m_created_at := 3000\<rparr>], tie_world)"
    by (simp only:)
  have m: "messages tie_world = [hi_there, hello_reply\<lparr>m_created_at := 3000\<rparr>]" by simp
  from t m l show ?thesis by (intro conjI)
qed

section \<open>The prompt sent to the gateway\<close>

lemma chat_calls_simps [simp]:
  "chat_calls [] = []"
  "chat_calls (xs @ ys) = chat_calls xs @ chat_calls ys"
  "chat_calls ((CompleteChat msgs, ok) # xs) = msgs # chat_calls xs"
  "chat_calls ((Transcribe sfx bs, ok) # xs) = chat_calls xs"
  "chat_calls ((Synthesize t, ok) # xs) = chat_calls xs"
  by (simp_all add: chat_calls_def)

lemma set_audio_url_simps [simp]:
  "agents (set_audio_url i u w) = agents w"
  "sessions (set_audio_url i u w) = sessions w"
  "audio_files (set_audio_url i u w) = audio_files w"
  "gateway_log (set_audio_url i u w) = gateway_log w"
  "messages (set_audio_url i u w) =
     map (\<lambda>m. if m_id m = i then m\<lparr>m_audio_url := Some u\<rparr> else m) (messages w)"
  by (simp_all add: set_audio_url_def)

lemma build_conversation_history_messages:
  "build_conversation_history ord sid w =
     map (\<lambda>m. \<lparr>role = m_role m, content = m_content m\<rparr>)
       (ord (filter (\<lambda>m. m_session_id m = sid) (messages w)))"
  by (simp add: build_conversation_history_def session_messages_def)

lemma send_message_chat_calls:
  assumes "get_agent_or_404 agent_id w = Inr agent"
    and "get_session_or_404 session_id agent_id w = Inr s"
    and "uid \<notin> m_id ` set (messages w)"
  shows "chat_calls (gateway_log (snd (send_message ord gw uid ut aid at agent_id session_id c w))) =
     chat_calls (gateway_log w) @
       [system_entry agent #
          build_conversation_history ord session_id
            (w\<lparr>messages := messages w @ [new_message uid ut session_id ''user'' c]\<rparr>)]"
  unfolding send_message_found [OF assms(1,2)]
  using assms(3) by (simp add: Let_def split: sum.splits)

lemma voice_interaction_chat_calls:
  assumes "get_agent_or_404 agent_id w = Inr agent"
    and "get_session_or_404 session_id agent_id w = Inr s"
    and "uid \<notin> m_id ` set (messages w)"
    and "named_temporary_file (upload_suffix fn) = Inr ()"
    and "transcriptions_create gw (upload_suffix fn) bs = Inr c"
  shows "chat_calls (gateway_log
       (snd (voice_interaction ord gw uid ut aid at hex agent_id session_id fn bs w))) =
     chat_calls (gateway_log w) @
       [system_entry agent #
          build_conversation_history ord session_id
            (w\<lparr>messages := messages w @ [new_message uid ut session_id ''user'' c]\<rparr>)]"
  unfolding voice_interaction_found [OF assms(1,2,4)]
  using assms(3,5)
  by (simp add: Let_def build_conversation_history_messages split: sum.splits)

lemma map_other_ids:
  "i \<notin> m_id ` set xs \<Longrightarrow> map (\<lambda>m. if m_id m = i then g m else m) xs = xs"
  by (induction xs) auto

lemma send_message_user_row:
  assumes "get_agent_or_404 agent_id w = Inr agent"
    and "get_session_or_404 session_id agent_id w = Inr s"
    and "uid \<notin> m_id ` set (messages w)"
  shows "take (Suc (length (messages w)))
       (messages (snd (send_message ord gw uid ut aid at agent_id session_id c w))) =
     messages w @ [new_message uid ut session_id ''user'' c]"
  unfolding send_message_found [OF assms(1,2)]
  using assms(3) by (simp add: Let_def split: sum.splits)

lemma voice_interaction_user_row:
  assumes "get_agent_or_404 agent_id w = Inr agent"
    and "get_session_or_404 session_id agent_id w = Inr s"
    and "uid \<notin> m_id ` set (messages w)"
    and "named_temporary_file (upload_suffix fn) = Inr ()"
    and "transcriptions_create gw (upload_suffix fn) bs = Inr c"
  shows "take (Suc (length (messages w)))
       (messages (snd (voice_interaction ord gw uid ut aid at hex agent_id session_id fn bs w))) =
     messages w @ [new_message uid ut session_id ''user'' c]"
  unfolding voice_interaction_found [OF assms(1,2,4)]
  using assms(3,5)
  by (simp add: Let_def map_other_ids split: sum.splits)

lemma lookups_messages_update [simp]:
  "get_agent_or_404 i (w\<lparr>messages := ms\<rparr>) = get_agent_or_404 i w"
  "get_session_or_404 sid i (w\<lparr>messages := ms\<rparr>) = get_session_or_404 sid i w"
  by (simp_all add: get_agent_or_404_def get_session_or_404_def)

text \<open>
  Claim C2. In \<^verbatim>\<open>send_message\<close>, and in \<^verbatim>\<open>voice_interaction\<close> once the upload is
  stored in its temporary file and transcribed, with agent and session resolved and an
  unused identifier for the user row: the user row is persisted, directly after the rows
  that were stored before, and the handler makes one chat completion call. Its argument is
  the entry with role \<^verbatim>\<open>system\<close> and the agent's prompt, followed by role and content
  of the rows that \<^verbatim>\<open>list_messages\<close> returns on the store as that commit left it.
  These rows are the messages of the session stored before together with the new user row,
  which occurs once, in non-decreasing order of \<open>created_at\<close> with the rows of equal
  timestamp in insertion order; when the timestamps of the table do not decrease, the
  history is the table's own order and the new row is its last entry.
\<close>

theorem gateway_prompt:
  assumes "get_agent_or_404 agent_id w = Inr agent"
    and "get_session_or_404 session_id agent_id w = Inr s"
    and "uid \<notin> m_id ` set (messages w)"
    and "um = \<lparr>m_id = uid, m_session_id = session_id, m_role = ''user'', m_content = c,
               m_audio_url = None, m_created_at = ut\<rparr>"
    and "stored = filter (\<lambda>m. m_session_id m = session_id) (messages w)"
  shows "\<exists>history.
     list_messages order_by_stable agent_id session_id (w\<lparr>messages := messages w @ [um]\<rparr>) =
       (Inr history, w\<lparr>messages := messages w @ [um]\<rparr>) \<and>
     take (Suc (length (messages w)))
       (messages (snd (send_message order_by_stable gw uid ut aid at agent_id session_id c w))) =
       messages w @ [um] \<and>
     chat_calls (gateway_log
       (snd (send_message order_by_stable gw uid ut aid at agent_id session_id c w))) =
       chat_calls (gateway_log w) @
         [\<lparr>role = ''system'', content = a_prompt agent\<rparr> #
            map (\<lambda>m. \<lparr>role = m_role m, content = m_content m\<rparr>) history] \<and>
     (named_temporary_file (upload_suffix filename) = Inr () \<and>
      transcriptions_create gw (upload_suffix filename) bytes = Inr c \<longrightarrow>
        take (Suc (length (messages w)))
          (messages (snd (voice_interaction order_by_stable gw uid ut aid at hex agent_id
             session_id filename bytes w))) =
          messages w @ [um] \<and>
        chat_calls (gateway_log
          (snd (voice_interaction order_by_stable gw uid ut aid at hex agent_id
             session_id filename bytes w))) =
          chat_calls (gateway_log w) @
            [\<lparr>role = ''system'', content = a_prompt agent\<rparr> #
               map (\<lambda>m. \<lparr>role = m_role m, content = m_content m\<rparr>) history]) \<and>
     mset history = mset stored + {#um#} \<and>
     count (mset history) um = 1 \<and>
     sorted (map m_created_at history) \<and>
     (\<forall>t. filter (\<lambda>m. m_created_at m = t) history =
          filter (\<lambda>m. m_created_at m = t) (stored @ [um])) \<and>
     (sorted (map m_created_at (stored @ [um])) \<longrightarrow> history = stored @ [um])"
proof -
  let ?h = "order_by_stable (stored @ [um])"
  let ?p = "\<lparr>role = ''system'', content = a_prompt agent\<rparr> #
            map (\<lambda>m. \<lparr>role = m_role m, content = m_content m\<rparr>) ?h"
  have um: "um = new_message uid ut session_id ''user'' c"
    by (simp add: assms(4) new_message_def)
  have sid: "m_session_id um = session_id" and mid: "m_id um = uid"
    by (simp_all add: assms(4))
  have f: "filter (\<lambda>m. m_session_id m = session_id) (messages w @ [um]) = stored @ [um]"
    by (simp add: sid assms(5))
  have p: "?p = system_entry agent #
      build_conversation_history order_by_stable session_id (w\<lparr>messages := messages w @ [um]\<rparr>)"
    by (simp add: system_entry_def build_conversation_history_messages sid assms(5))
  have 0: "list_messages order_by_stable agent_id session_id
      (w\<lparr>messages := messages w @ [um]\<rparr>) = (Inr ?h, w\<lparr>messages := messages w @ [um]\<rparr>)"
    by (simp add: list_messages_def assms(1,2) session_messages_def sid assms(5))
  have 1: "take (Suc (length (messages w)))
       (messages (snd (send_message order_by_stable gw uid ut aid at agent_id session_id c w))) =
       messages w @ [um]"
    unfolding um by (rule send_message_user_row [OF assms(1-3)])
  have 2: "chat_calls (gateway_log
       (snd (send_message order_by_stable gw uid ut aid at agent_id session_id c w))) =
       chat_calls (gateway_log w) @ [?p]"
    unfolding p unfolding um by (rule send_message_chat_calls [OF assms(1-3)])
  have 3: "take (Suc (length (messages w)))
          (messages (snd (voice_interaction order_by_stable gw uid ut aid at hex agent_id
             session_id filename bytes w))) =
          messages w @ [um] \<and>
        chat_calls (gateway_log
          (snd (voice_interaction order_by_stable gw uid ut aid at hex agent_id
             session_id filename bytes w))) =
          chat_calls (gateway_log w) @ [?p]"
    if "named_temporary_file (upload_suffix filename) = Inr () \<and>
      transcriptions_create gw (upload_suffix filename) bytes = Inr c"
  proof
    from that have tf: "named_temporary_file (upload_suffix filename) = Inr ()"
      and tr: "transcriptions_create gw (upload_suffix filename) bytes = Inr c"
      by simp_all
    show "take (Suc (length (messages w)))
          (messages (snd (voice_interaction order_by_stable gw uid ut aid at hex agent_id
             session_id filename bytes w))) = messages w @ [um]"
      unfolding um by (rule voice_interaction_user_row [OF assms(1-3) tf tr])
    show "chat_calls (gateway_log
          (snd (voice_interaction order_by_stable gw uid ut aid at hex agent_id
             session_id filename bytes w))) = chat_calls (gateway_log w) @ [?p]"
      unfolding p unfolding um by (rule voice_interaction_chat_calls [OF assms(1-3) tf tr])
  qed
  have 4: "mset ?h = mset stored + {#um#}" by simp
  from assms(3) mid have "um \<notin> set (messages w)" by (metis imageI)
  then have "um \<notin> set stored" by (simp add: assms(5))
  then have 5: "count (mset ?h) um = 1"
    by (simp add: count_mset_0_iff [THEN iffD2])
  have 6: "sorted (map m_created_at ?h)" by (rule order_by_stable_sorted)
  have 7: "filter (\<lambda>m. m_created_at m = t) ?h =
      filter (\<lambda>m. m_created_at m = t) (stored @ [um])" for t
    by (rule order_by_stable_ties)
  have 8: "sorted (map m_created_at (stored @ [um])) \<longrightarrow> ?h = stored @ [um]"
    by (simp add: order_by_stable_sorted_id)
  from 0 1 2 3 4 5 6 7 8 show ?thesis
    by (intro exI [of _ ?h] conjI impI allI) blast+
qed

lemma recording_webm_suffix: "upload_suffix (Some ''recording.webm'') = ''.webm''"
  by (simp add: upload_suffix_def splitext_ext_def Let_def)

lemma recording_webm_tempfile:
  "named_temporary_file (upload_suffix (Some ''recording.webm'')) = Inr ()"
  by (simp add: recording_webm_suffix named_temporary_file_def)

theorem gateway_prompt_witness:
  "chat_calls (gateway_log (snd (send_message order_by_stable stub_gateway
       ''message-3'' 5000 ''message-4'' 6000 ''agent-1'' ''session-1'' ''Hello voice''
       two_agent_world))) =
     [[\<lparr>role = ''system'', content = ''You are a test agent.''\<rparr>,
       \<lparr>role = ''user'', content = ''Hi there''\<rparr>,
       \<lparr>role = ''assistant'', content = ''Hello! How can I help you?''\<rparr>,
       \<lparr>role = ''user'', content = ''Hello voice''\<rparr>]] \<and>
   chat_calls (gateway_log (snd (voice_interaction order_by_stable stub_gateway
       ''message-3'' 5000 ''message-4'' 6000 ''0f'' ''agent-1'' ''session-1''
       (Some ''recording.webm'') [0, 0] two_agent_world))) =
     [[\<lparr>role = ''system'', content = ''You are a test agent.''\<rparr>,
       \<lparr>role = ''user'', content = ''Hi there''\<rparr>,
       \<lparr>role = ''assistant'', content = ''Hello! How can I help you?''\<rparr>,
       \<lparr>role = ''user'', content = ''Hello voice''\<rparr>]] \<and>
   take 4 (messages (snd (voice_interaction order_by_stable stub_gateway
       ''message-3'' 5000 ''message-4'' 6000 ''0f'' ''agent-1'' ''session-1''
       (Some ''recording.webm'') [0, 0] two_agent_world))) =
     [hi_there, hello_reply, other_message,
      \<lparr>m_id = ''message-3'', m_session_id = ''session-1'', m_role = ''user'',
       m_content = ''Hello voice'', m_audio_url = None, m_created_at = 5000\<rparr>]"
proof -
  define um where "um = \<lparr>m_id = ''message-3'', m_session_id = ''session-1'', m_role = ''user'',
    m_content = ''Hello voice'', m_audio_url = None, m_created_at = 5000\<rparr>"
  have a: "get_agent_or_404 ''agent-1'' two_agent_world = Inr created_agent"
    by (simp add: get_agent_or_404_def created_agent_def other_agent_def)
  have s: "get_session_or_404 ''session-1'' ''agent-1'' two_agent_world = Inr created_session"
    by (simp add: get_session_or_404_def created_session_def other_session_def)
  have fresh: "''message-3'' \<notin> m_id ` set (messages two_agent_world)"
    by (simp add: hi_there_def hello_reply_def other_message_def)
  have st: "[hi_there, hello_reply] =
      filter (\<lambda>m. m_session_id m = ''session-1'') (messages two_agent_world)"
    by (simp add: hi_there_def hello_reply_def other_message_def)
  have inc: "sorted (map m_created_at ([hi_there, hello_reply] @ [um]))"
    by (simp add: hi_there_def hello_reply_def um_def)
  have tr: "named_temporary_file (upload_suffix (Some ''recording.webm'')) = Inr () \<and>
      transcriptions_create stub_gateway (upload_suffix (Some ''recording.webm'')) [0, 0] =
      Inr ''Hello voice''"
    by (simp add: recording_webm_tempfile stub_gateway_def)
  from gateway_prompt [OF a s fresh um_def st,
      where gw = stub_gateway and aid = "''message-4''" and at = 6000 and hex = "''0f''"
        and filename = "Some ''recording.webm''" and bytes = "[0, 0]"]
  obtain history where
    1: "chat_calls (gateway_log (snd (send_message order_by_stable stub_gateway
       ''message-3'' 5000 ''message-4'' 6000 ''agent-1'' ''session-1'' ''Hello voice''
       two_agent_world))) = chat_calls (gateway_log two_agent_world) @
         [\<lparr>role = ''system'', content = a_prompt created_agent\<rparr> #
            map (\<lambda>m. \<lparr>role = m_role m, content = m_content m\<rparr>) history]"
    and 2: "named_temporary_file (upload_suffix (Some ''recording.webm'')) = Inr () \<and>
      transcriptions_create stub_gateway (upload_suffix (Some ''recording.webm'')) [0, 0] =
        Inr ''Hello voice'' \<longrightarrow>
      take (Suc (length (messages two_agent_world)))
          (messages (snd (voice_interaction order_by_stable stub_gateway
       ''message-3'' 5000 ''message-4'' 6000 ''0f'' ''agent-1'' ''session-1''
       (Some ''recording.webm'') [0, 0] two_agent_world))) =
          messages two_agent_world @ [um] \<and>
      chat_calls (gateway_log (snd (voice_interaction order_by_stable stub_gateway
       ''message-3'' 5000 ''message-4'' 6000 ''0f'' ''agent-1'' ''session-1''
       (Some ''recording.webm'') [0, 0] two_agent_world))) =
        chat_calls (gateway_log two_agent_world) @
         [\<lparr>role = ''system'', content = a_prompt created_agent\<rparr> #
            map (\<lambda>m. \<lparr>role = m_role m, content = m_content m\<rparr>) history]"
    and 3: "sorted (map m_created_at ([hi_there, hello_reply] @ [um])) \<longrightarrow>
      history = [hi_there, hello_reply] @ [um]"
    by blast
  from 3 inc have hist: "history = [hi_there, hello_reply] @ [um]" by (rule mp)
  have pr: "\<lparr>role = ''system'', content = a_prompt created_agent\<rparr> #
            map (\<lambda>m. \<lparr>role = m_role m, content = m_content m\<rparr>) history =
      [\<lparr>role = ''system'', content = ''You are a test agent.''\<rparr>,
       \<lparr>role = ''user'', content = ''Hi there''\<rparr>,
       \<lparr>role = ''assistant'', content = ''Hello! How can I help you?''\<rparr>,
       \<lparr>role = ''user'', content = ''Hello voice''\<rparr>]"
    by (simp add: hist created_agent_def hi_there_def hello_reply_def um_def)
  have e: "chat_calls (gateway_log two_agent_world) = []" by simp
  have n: "Suc (length (messages two_agent_world)) = 4"
    "messages two_agent_world @ [um] = [hi_there, hello_reply, other_message, um]"
    by simp_all
  from 2 tr have 4: "take (Suc (length (messages two_agent_world)))
          (messages (snd (voice_interaction order_by_stable stub_gateway
       ''message-3'' 5000 ''message-4'' 6000 ''0f'' ''agent-1'' ''session-1''
       (Some ''recording.webm'') [0, 0] two_agent_world))) =
          messages two_agent_world @ [um]"
    and 5: "chat_calls (gateway_log (snd (voice_interaction order_by_stable stub_gateway
       ''message-3'' 5000 ''message-4'' 6000 ''0f'' ''agent-1'' ''session-1''
       (Some ''recording.webm'') [0, 0] two_agent_world))) =
        chat_calls (gateway_log two_agent_world) @
         [\<lparr>role = ''system'', content = a_prompt created_agent\<rparr> #
            map (\<lambda>m. \<lparr>role = m_role m, content = m_content m\<rparr>) history]"
    by blast+
  from 4 have 6: "take 4
          (messages (snd (voice_interaction order_by_stable stub_gateway
       ''message-3'' 5000 ''message-4'' 6000 ''0f'' ''agent-1'' ''session-1''
       (Some ''recording.webm'') [0, 0] two_agent_world))) =
          [hi_there, hello_reply, other_message, um]"
    unfolding n .
  from 1 5 6 show ?thesis
    unfolding pr e append_Nil um_def by (intro conjI)
qed

section \<open>Audio references are set after synthesis only\<close>

lemma synthesized_mono:
  assumes "synthesized w m"
    and "set (gateway_log w) \<subseteq> set (gateway_log w')"
    and "dom (audio_files w) \<subseteq> dom (audio_files w')"
  shows "synthesized w' m"
  using assms by (auto simp: synthesized_def split: option.splits)

lemma justified_step:
  assumes "\<forall>m \<in> set (messages w). m_audio_url m = None \<or> synthesized w m"
    and "\<forall>m \<in> set (messages w').
           m \<in> set (messages w) \<or> m_audio_url m = None \<or> synthesized w' m"
    and "set (gateway_log w) \<subseteq> set (gateway_log w')"
    and "dom (audio_files w) \<subseteq> dom (audio_files w')"
  shows "\<forall>m \<in> set (messages w'). m_audio_url m = None \<or> synthesized w' m"
  using assms synthesized_mono by blast

lemma synthesized_new:
  assumes "(Synthesize c, True) \<in> set (gateway_log w)"
    and "audio_files w (''audio_files/'' @ hex @ ''.mp3'') \<noteq> None"
  shows "synthesized w
    ((new_message i t sid ''assistant'' c)\<lparr>m_audio_url := Some (''/api/audio/'' @ hex @ ''.mp3'')\<rparr>)"
  using assms by (simp add: synthesized_def)

lemma send_message_effect:
  "(\<exists>new. messages (snd (send_message ord gw uid ut aid at agent_id session_id c w)) =
           messages w @ new \<and> (\<forall>m \<in> set new. m_audio_url m = None)) \<and>
   set (gateway_log w) \<subseteq>
     set (gateway_log (snd (send_message ord gw uid ut aid at agent_id session_id c w))) \<and>
   audio_files (snd (send_message ord gw uid ut aid at agent_id session_id c w)) = audio_files w"
proof (cases "get_agent_or_404 agent_id w")
  case (Inl e)
  then show ?thesis by (simp add: send_message_def)
next
  case a: (Inr agent)
  show ?thesis
  proof (cases "get_session_or_404 session_id agent_id w")
    case (Inl e)
    with a show ?thesis by (simp add: send_message_def)
  next
    case s: (Inr s)
    show ?thesis
      unfolding send_message_found [OF a s]
      by (auto simp: Let_def split: sum.splits)
  qed
qed

lemma voice_interaction_effect:
  "(\<exists>new. messages (snd (voice_interaction ord gw uid ut aid at hex agent_id session_id fn bs w)) =
           messages w @ new \<and>
         (\<forall>m \<in> set new. m_audio_url m = None \<or>
            synthesized (snd (voice_interaction ord gw uid ut aid at hex agent_id session_id fn bs w)) m)) \<and>
   set (gateway_log w) \<subseteq>
     set (gateway_log (snd (voice_interaction ord gw uid ut aid at hex agent_id session_id fn bs w))) \<and>
   dom (audio_files w) \<subseteq>
     dom (audio_files (snd (voice_interaction ord gw uid ut aid at hex agent_id session_id fn bs w)))"
proof (cases "get_agent_or_404 agent_id w")
  case (Inl e)
  then show ?thesis by (simp add: voice_interaction_def)
next
  case a: (Inr agent)
  show ?thesis
  proof (cases "get_session_or_404 session_id agent_id w")
    case (Inl e)
    with a show ?thesis by (simp add: voice_interaction_def)
  next
    case s: (Inr s)
    show ?thesis
    proof (cases "named_temporary_file (upload_suffix fn)")
      case (Inl e)
      show ?thesis
        unfolding voice_interaction_no_tempfile [OF a s Inl] by simp
    next
      case (Inr u)
      then have tf: "named_temporary_file (upload_suffix fn) = Inr ()" by simp
      show ?thesis
        unfolding voice_interaction_found [OF a s tf]
        by (auto simp: Let_def map_other_ids synthesized_def split: sum.splits)
    qed
  qed
qed

lemma create_agent_effect:
  "messages (snd (create_agent i c u n p w)) = messages w \<and>
   gateway_log (snd (create_agent i c u n p w)) = gateway_log w \<and>
   audio_files (snd (create_agent i c u n p w)) = audio_files w"
  by (simp add: create_agent_def Let_def add_agent_def)

lemma create_session_effect:
  "messages (snd (create_session i c now a t w)) = messages w \<and>
   gateway_log (snd (create_session i c now a t w)) = gateway_log w \<and>
   audio_files (snd (create_session i c now a t w)) = audio_files w"
  by (simp add: create_session_def Let_def add_session_def split: sum.splits)

lemma delete_agent_effect:
  "set (messages (snd (delete_agent i w))) \<subseteq> set (messages w) \<and>
   gateway_log (snd (delete_agent i w)) = gateway_log w \<and>
   audio_files (snd (delete_agent i w)) = audio_files w"
  by (auto simp: delete_agent_def Let_def split: sum.splits)

lemma delete_session_effect:
  "set (messages (snd (delete_session a sid w))) \<subseteq> set (messages w) \<and>
   gateway_log (snd (delete_session a sid w)) = gateway_log w \<and>
   audio_files (snd (delete_session a sid w)) = audio_files w"
  by (auto simp: delete_session_def split: sum.splits option.splits)

lemma handle_justified:
  assumes "\<forall>m \<in> set (messages w). m_audio_url m = None \<or> synthesized w m"
  shows "\<forall>m \<in> set (messages (handle ord r w)).
           m_audio_url m = None \<or> synthesized (handle ord r w) m"
proof (rule justified_step [OF assms])
  show "\<forall>m \<in> set (messages (handle ord r w)).
      m \<in> set (messages w) \<or> m_audio_url m = None \<or> synthesized (handle ord r w) m"
  proof (cases r)
    case (Create_agent i c u n p)
    then show ?thesis using create_agent_effect [of i c u n p w] by simp
  next
    case (Update_agent now i p)
    then show ?thesis using update_agent_frame [of now i p w] by simp
  next
    case (Delete_agent i)
    then show ?thesis using delete_agent_effect [of i w] by auto
  next
    case (Create_session i c now a t)
    then show ?thesis using create_session_effect [of i c now a t w] by simp
  next
    case (Delete_session a sid)
    then show ?thesis using delete_session_effect [of a sid w] by auto
  next
    case (Send_message gw uid ut aid at agent_id session_id c)
    then show ?thesis
      using send_message_effect [of ord gw uid ut aid at agent_id session_id c w] by auto
  next
    case (Voice_interaction gw uid ut aid at hex agent_id session_id fn bs)
    then show ?thesis
      using voice_interaction_effect [of ord gw uid ut aid at hex agent_id session_id fn bs w]
      by auto
  qed
  show "set (gateway_log w) \<subseteq> set (gateway_log (handle ord r w))"
  proof (cases r)
    case (Create_agent i c u n p)
    then show ?thesis using create_agent_effect [of i c u n p w] by simp
  next
    case (Update_agent now i p)
    then show ?thesis using update_agent_frame [of now i p w] by simp
  next
    case (Delete_agent i)
    then show ?thesis using delete_agent_effect [of i w] by simp
  next
    case (Create_session i c now a t)
    then show ?thesis using create_session_effect [of i c now a t w] by simp
  next
    case (Delete_session a sid)
    then show ?thesis using delete_session_effect [of a sid w] by simp
  next
    case (Send_message gw uid ut aid at agent_id session_id c)
    then show ?thesis
      using send_message_effect [of ord gw uid ut aid at agent_id session_id c w] by simp
  next
    case (Voice_interaction gw uid ut aid at hex agent_id session_id fn bs)
    then show ?thesis
      using voice_interaction_effect [of ord gw uid ut aid at hex agent_id session_id fn bs w]
      by simp
  qed
  show "dom (audio_files w) \<subseteq> dom (audio_files (handle ord r w))"
  proof (cases r)
    case (Create_agent i c u n p)
    then show ?thesis using create_agent_effect [of i c u n p w] by simp
  next
    case (Update_agent now i p)
    then show ?thesis using update_agent_frame [of now i p w] by simp
  next
    case (Delete_agent i)
    then show ?thesis using delete_agent_effect [of i w] by simp
  next
    case (Create_session i c now a t)
    then show ?thesis using create_session_effect [of i c now a t w] by simp
  next
    case (Delete_session a sid)
    then show ?thesis using delete_session_effect [of a sid w] by simp
  next
    case (Send_message gw uid ut aid at agent_id session_id c)
    then show ?thesis
      using send_message_effect [of ord gw uid ut aid at agent_id session_id c w] by simp
  next
    case (Voice_interaction gw uid ut aid at hex agent_id session_id fn bs)
    then show ?thesis
      using voice_interaction_effect [of ord gw uid ut aid at hex agent_id session_id fn bs w]
      by simp
  qed
qed

lemma reachable_justified:
  "reachable ord w \<Longrightarrow> \<forall>m \<in> set (messages w). m_audio_url m = None \<or> synthesized w m"
proof (induction rule: reachable.induct)
  case start
  then show ?case by (simp add: empty_world_def)
next
  case (step w r)
  from step.IH show ?case by (rule handle_justified)
qed

lemma reachable_fixture_world: "reachable ord fixture_world"
proof -
  have c1: "handle ord (Create_agent ''agent-1'' 1000 1000 ''Test Agent''
      ''You are a test agent.'') empty_world = empty_world\<lparr>agents := [created_agent]\<rparr>"
    by (simp add: create_agent_def add_agent_def empty_world_def created_agent_def Let_def)
  have c2: "handle ord (Create_session ''session-1'' 2000 0 ''agent-1'' (Some ''Test Session''))
      (empty_world\<lparr>agents := [created_agent]\<rparr>) = fixture_world"
    by (simp add: create_session_def get_agent_or_404_def add_session_def fixture_world_def
        empty_world_def created_agent_def created_session_def Let_def)
  have "reachable ord (handle ord (Create_agent ''agent-1'' 1000 1000 ''Test Agent''
      ''You are a test agent.'') empty_world)"
    by (rule reachable.step [OF reachable.start])
  then have "reachable ord (empty_world\<lparr>agents := [created_agent]\<rparr>)"
    unfolding c1 .
  then have "reachable ord (handle ord
      (Create_session ''session-1'' 2000 0 ''agent-1'' (Some ''Test Session''))
      (empty_world\<lparr>agents := [created_agent]\<rparr>))"
    by (rule reachable.step)
  then show ?thesis unfolding c2 .
qed

text \<open>
  Claim C4. In every reachable world each stored message either has no audio reference or
  its speech synthesis has succeeded. \<^verbatim>\<open>send_message\<close> leaves the stored rows as they
  are and adds rows without an audio reference only. In \<^verbatim>\<open>voice_interaction\<close>, once
  user row and assistant row are committed, the assistant row without an audio reference:
  if the synthesis call raises, the handler ends with that error and both rows are stored,
  the assistant row still without an audio reference; if it returns, the assistant row
  gets the reference \<^verbatim>\<open>/api/audio/{hex}.mp3\<close>, the file is in the audio directory,
  and the pair returned carries that reference.
\<close>

theorem audio_url_only_after_synthesis:
  assumes "reachable ord w"
    and "um = \<lparr>m_id = uid, m_session_id = session_id, m_role = ''user'', m_content = tr,
               m_audio_url = None, m_created_at = ut\<rparr>"
    and "am = \<lparr>m_id = aid, m_session_id = session_id, m_role = ''assistant'',
               m_content = reply, m_audio_url = None, m_created_at = at\<rparr>"
  shows "(\<forall>m \<in> set (messages w). m_audio_url m = None \<or> synthesized w m) \<and>
         (\<exists>new. messages (snd (send_message ord gw uid ut aid at agent_id session_id c w)) =
                  messages w @ new \<and> (\<forall>m \<in> set new. m_audio_url m = None)) \<and>
         (get_agent_or_404 agent_id w = Inr agent \<and>
          get_session_or_404 session_id agent_id w = Inr s \<and>
          named_temporary_file (upload_suffix filename) = Inr () \<and>
          transcriptions_create gw (upload_suffix filename) bytes = Inr tr \<and>
          uid \<notin> m_id ` set (messages w) \<and> aid \<notin> m_id ` set (messages w) \<and> aid \<noteq> uid \<and>
          chat_completions_create gw
            (system_entry agent #
               build_conversation_history ord session_id (w\<lparr>messages := messages w @ [um]\<rparr>)) =
            Inr reply \<longrightarrow>
          (case speech_create gw reply of
             Inl x \<Rightarrow>
               fst (voice_interaction ord gw uid ut aid at hex agent_id session_id
                      filename bytes w) = Inl (UpstreamError x) \<and>
               messages (snd (voice_interaction ord gw uid ut aid at hex agent_id session_id
                      filename bytes w)) = messages w @ [um, am] \<and>
               audio_files (snd (voice_interaction ord gw uid ut aid at hex agent_id session_id
                      filename bytes w)) = audio_files w
           | Inr data \<Rightarrow>
               fst (voice_interaction ord gw uid ut aid at hex agent_id session_id
                      filename bytes w) =
                 Inr (um, am\<lparr>m_audio_url := Some (''/api/audio/'' @ hex @ ''.mp3'')\<rparr>) \<and>
               messages (snd (voice_interaction ord gw uid ut aid at hex agent_id session_id
                      filename bytes w)) =
                 messages w @ [um, am\<lparr>m_audio_url := Some (''/api/audio/'' @ hex @ ''.mp3'')\<rparr>] \<and>
               audio_files (snd (voice_interaction ord gw uid ut aid at hex agent_id session_id
                      filename bytes w)) =
                 (audio_files w)(''audio_files/'' @ hex @ ''.mp3'' \<mapsto> data) \<and>
               (Synthesize reply, True) \<in> set (gateway_log
                  (snd (voice_interaction ord gw uid ut aid at hex agent_id session_id
                      filename bytes w)))))"
proof -
  have um: "um = new_message uid ut session_id ''user'' tr"
    and am: "am = new_message aid at session_id ''assistant'' reply"
    by (simp_all add: assms(2,3) new_message_def)
  have voice: "(case speech_create gw reply of
             Inl x \<Rightarrow>
               fst (voice_interaction ord gw uid ut aid at hex agent_id session_id
                      filename bytes w) = Inl (UpstreamError x) \<and>
               messages (snd (voice_interaction ord gw uid ut aid at hex agent_id session_id
                      filename bytes w)) = messages w @ [um, am] \<and>
               audio_files (snd (voice_interaction ord gw uid ut aid at hex agent_id session_id
                      filename bytes w)) = audio_files w
           | Inr data \<Rightarrow>
               fst (voice_interaction ord gw uid ut aid at hex agent_id session_id
                      filename bytes w) =
                 Inr (um, am\<lparr>m_audio_url := Some (''/api/audio/'' @ hex @ ''.mp3'')\<rparr>) \<and>
               messages (snd (voice_interaction ord gw uid ut aid at hex agent_id session_id
                      filename bytes w)) =
                 messages w @ [um, am\<lparr>m_audio_url := Some (''/api/audio/'' @ hex @ ''.mp3'')\<rparr>] \<and>
               audio_files (snd (voice_interaction ord gw uid ut aid at hex agent_id session_id
                      filename bytes w)) =
                 (audio_files w)(''audio_files/'' @ hex @ ''.mp3'' \<mapsto> data) \<and>
               (Synthesize reply, True) \<in> set (gateway_log
                  (snd (voice_interaction ord gw uid ut aid at hex agent_id session_id
                      filename bytes w))))"
    if a: "get_agent_or_404 agent_id w = Inr agent"
      and s: "get_session_or_404 session_id agent_id w = Inr s"
      and tf: "named_temporary_file (upload_suffix filename) = Inr ()"
      and tr: "transcriptions_create gw (upload_suffix filename) bytes = Inr tr"
      and fresh: "uid \<notin> m_id ` set (messages w)" "aid \<notin> m_id ` set (messages w)" "aid \<noteq> uid"
      and chat: "chat_completions_create gw
            (system_entry agent #
               build_conversation_history ord session_id (w\<lparr>messages := messages w @ [um]\<rparr>)) =
            Inr reply"
  proof -
    from chat have chat': "chat_completions_create gw
        (system_entry agent #
           map (\<lambda>m. \<lparr>role = m_role m, content = m_content m\<rparr>)
             (ord (filter (\<lambda>m. m_session_id m = session_id)
                (messages w @ [new_message uid ut session_id ''user'' tr])))) = Inr reply"
      by (simp add: build_conversation_history_messages um)
    show ?thesis
      unfolding voice_interaction_found [OF a s tf] um am
      using tr fresh chat'
      by (simp add: Let_def map_other_ids build_conversation_history_messages
          split: sum.splits)
  qed
  from reachable_justified [OF assms(1)]
    send_message_effect [of ord gw uid ut aid at agent_id session_id c w] voice
  show ?thesis by blast
qed

theorem audio_url_only_after_synthesis_witness:
  "reachable order_by_stable fixture_world \<and>
   fst (voice_interaction order_by_stable stub_gateway ''message-1'' 3000 ''message-2'' 4000
          ''0f'' ''agent-1'' ''session-1'' (Some ''recording.webm'') [0, 0] fixture_world) =
     Inr (\<lparr>m_id = ''message-1'', m_session_id = ''session-1'', m_role = ''user'',
            m_content = ''Hello voice'', m_audio_url = None, m_created_at = 3000\<rparr>,
          hello_reply\<lparr>m_audio_url := Some ''/api/audio/0f.mp3''\<rparr>) \<and>
   messages (snd (voice_interaction order_by_stable stub_gateway ''message-1'' 3000
          ''message-2'' 4000 ''0f'' ''agent-1'' ''session-1'' (Some ''recording.webm'') [0, 0]
          fixture_world)) =
     [\<lparr>m_id = ''message-1'', m_session_id = ''session-1'', m_role = ''user'',
       m_content = ''Hello voice'', m_audio_url = None, m_created_at = 3000\<rparr>,
      hello_reply\<lparr>m_audio_url := Some ''/api/audio/0f.mp3''\<rparr>] \<and>
   synthesized (snd (voice_interaction order_by_stable stub_gateway ''message-1'' 3000
          ''message-2'' 4000 ''0f'' ''agent-1'' ''session-1'' (Some ''recording.webm'') [0, 0]
          fixture_world))
     (hello_reply\<lparr>m_audio_url := Some ''/api/audio/0f.mp3''\<rparr>) \<and>
   fst (voice_interaction order_by_stable failing_speech_gateway ''message-1'' 3000
          ''message-2'' 4000 ''0f'' ''agent-1'' ''session-1'' (Some ''recording.webm'') [0, 0]
          fixture_world) = Inl (UpstreamError ''rate limit exceeded'') \<and>
   messages (snd (voice_interaction order_by_stable failing_speech_gateway ''message-1'' 3000
          ''message-2'' 4000 ''0f'' ''agent-1'' ''session-1'' (Some ''recording.webm'') [0, 0]
          fixture_world)) =
     [\<lparr>m_id = ''message-1'', m_session_id = ''session-1'', m_role = ''user'',
       m_content = ''Hello voice'', m_audio_url = None, m_created_at = 3000\<rparr>,
      hello_reply] \<and>
   m_audio_url hello_reply = None"
proof -
  define um where "um = \<lparr>m_id = ''message-1'', m_session_id = ''session-1'', m_role = ''user'',
    m_content = ''Hello voice'', m_audio_url = None, m_created_at = 3000\<rparr>"
  define v where "v = snd (voice_interaction order_by_stable stub_gateway ''message-1'' 3000
    ''message-2'' 4000 ''0f'' ''agent-1'' ''session-1'' (Some ''recording.webm'') [0, 0]
    fixture_world)"
  have am: "hello_reply = \<lparr>m_id = ''message-2'', m_session_id = ''session-1'',
      m_role = ''assistant'', m_content = ''Hello! How can I help you?'', m_audio_url = None,
      m_created_at = 4000\<rparr>"
    by (simp add: hello_reply_def)
  have r0: "reachable order_by_stable fixture_world" by (rule reachable_fixture_world)
  have hyp: "get_agent_or_404 ''agent-1'' fixture_world = Inr created_agent \<and>
      get_session_or_404 ''session-1'' ''agent-1'' fixture_world = Inr created_session \<and>
      named_temporary_file (upload_suffix (Some ''recording.webm'')) = Inr () \<and>
      transcriptions_create gw (upload_suffix (Some ''recording.webm'')) [0, 0] =
        Inr ''Hello voice'' \<and>
      ''message-1'' \<notin> m_id ` set (messages fixture_world) \<and>
      ''message-2'' \<notin> m_id ` set (messages fixture_world) \<and> ''message-2'' \<noteq> ''message-1'' \<and>
      chat_completions_create gw
        (system_entry created_agent #
           build_conversation_history order_by_stable ''session-1''
             (fixture_world\<lparr>messages := messages fixture_world @ [um]\<rparr>)) =
        Inr ''Hello! How can I help you?''"
    if "gw = stub_gateway \<or> gw = failing_speech_gateway" for gw
    using that
    by (auto simp: fixture_lookups recording_webm_tempfile stub_gateway_def
        failing_speech_gateway_def)
  note ok = audio_url_only_after_synthesis [OF r0 um_def am,
      where gw = stub_gateway and hex = "''0f''" and agent_id = "''agent-1''"
        and filename = "Some ''recording.webm''" and bytes = "[0, 0]"
        and agent = created_agent and s = created_session, THEN conjunct2, THEN conjunct2,
      THEN mp, OF hyp]
  have sp: "speech_create stub_gateway ''Hello! How can I help you?'' = Inr [0, 1, 2]"
    by (simp add: stub_gateway_def)
  from ok have 1: "fst (voice_interaction order_by_stable stub_gateway ''message-1'' 3000
      ''message-2'' 4000 ''0f'' ''agent-1'' ''session-1'' (Some ''recording.webm'') [0, 0]
      fixture_world) = Inr (um, hello_reply\<lparr>m_audio_url := Some ''/api/audio/0f.mp3''\<rparr>)"
    and 2: "messages v = [um, hello_reply\<lparr>m_audio_url := Some ''/api/audio/0f.mp3''\<rparr>]"
    unfolding sp v_def by simp_all
  have "reachable order_by_stable (handle order_by_stable
      (Voice_interaction stub_gateway ''message-1'' 3000 ''message-2'' 4000 ''0f'' ''agent-1''
         ''session-1'' (Some ''recording.webm'') [0, 0]) fixture_world)"
    using r0 by (rule reachable.step)
  then have rv: "reachable order_by_stable v" by (simp add: v_def)
  from audio_url_only_after_synthesis [OF rv um_def am, THEN conjunct1]
  have "\<forall>m \<in> set (messages v). m_audio_url m = None \<or> synthesized v m" .
  then have 3: "synthesized v (hello_reply\<lparr>m_audio_url := Some ''/api/audio/0f.mp3''\<rparr>)"
    by (simp add: 2)
  note bad = audio_url_only_after_synthesis [OF r0 um_def am,
      where gw = failing_speech_gateway and hex = "''0f''" and agent_id = "''agent-1''"
        and filename = "Some ''recording.webm''" and bytes = "[0, 0]"
        and agent = created_agent and s = created_session, THEN conjunct2, THEN conjunct2,
      THEN mp, OF hyp]
  have sf: "speech_create failing_speech_gateway ''Hello! How can I help you?'' =
      Inl ''rate limit exceeded''"
    by (simp add: failing_speech_gateway_def)
  from bad have 4: "fst (voice_interaction order_by_stable failing_speech_gateway ''message-1''
      3000 ''message-2'' 4000 ''0f'' ''agent-1'' ''session-1'' (Some ''recording.webm'') [0, 0]
      fixture_world) = Inl (UpstreamError ''rate limit exceeded'')"
    and 5: "messages (snd (voice_interaction order_by_stable failing_speech_gateway
      ''message-1'' 3000 ''message-2'' 4000 ''0f'' ''agent-1'' ''session-1''
      (Some ''recording.webm'') [0, 0] fixture_world)) = [um, hello_reply]"
    unfolding sf by simp_all
  have 6: "m_audio_url hello_reply = None" by (simp add: hello_reply_def)
  from r0 1 2 3 4 5 6 show ?thesis
    unfolding v_def um_def by (intro conjI)
qed

end
